theory Spec2Isabelle
  imports Main "HOL-Library.Word" "HOL-Library.Multiset"
begin

section \<open>The order ledger: contracts/OrderProcessor.sol\<close>

text \<open>
  Solidity value types are machine words: \<open>bytes32\<close> and \<open>uint256\<close> are 256-bit words,
  \<open>address\<close> is a 160-bit word, \<open>uint32\<close> a 32-bit word. A \<open>bytes\<close> value is a list of
  octets.
\<close>

type_synonym bytes32 = "256 word"
type_synonym uint256 = "256 word"
type_synonym address = "160 word"
type_synonym uint32 = "32 word"
type_synonym bytes = "8 word list"

datatype OrderState = NONEXISTENT | OPEN | COMPLETED

record OrderInfo =
  state :: OrderState
  sourceAccount :: address
  targetAccount :: bytes32
  amount :: uint256
  rewardAsset :: address
  confirmationId :: bytes32
  timestamp :: uint256
  nonce :: uint32
  networkId :: bytes32

text \<open>
  The contract's storage: the two mappings. A Solidity mapping is total, every key
  holding the zero value until it is written.
\<close>

record storage =
  authorizedContracts :: "uint32 \<Rightarrow> address \<Rightarrow> bool"
  orders :: "bytes32 \<Rightarrow> OrderInfo"

definition zeroOrderInfo :: OrderInfo where
  "zeroOrderInfo =
     \<lparr>state = NONEXISTENT, sourceAccount = 0, targetAccount = 0, amount = 0,
      rewardAsset = 0, confirmationId = 0, timestamp = 0, nonce = 0, networkId = 0\<rparr>"

definition deployed :: storage where
  "deployed = \<lparr>authorizedContracts = (\<lambda>_ _. False), orders = (\<lambda>_. zeroOrderInfo)\<rparr>"

datatype event =
    OrderOpened bytes32 bytes32 uint32 bytes32 uint256 address uint256 uint256 uint32 address
      uint256
  | OrderCompleted bytes32 address bytes32 uint256 address uint256
  | ReclaimReady bytes32 address address uint256

text \<open>
  A call either runs to its end, with the storage it leaves and the events it emitted, or
  reverts. \<open>Reverted\<close> keeps the reason and the storage as the body had left it when the
  failing check ran, so that a write made before a failing check would be visible.
\<close>

datatype revert_reason = ProverReverted | AbiDecodeReverted | Require string

datatype outcome = Reverted revert_reason storage | Done storage "event list"

text \<open>
  What the contract gets from outside: the prover contract behind \<open>polymerProver\<close>, whose
  \<open>validateEvent\<close> returns (chainId, emittingContract, topics, data) or reverts (\<open>None\<close>),
  and the \<open>keccak256\<close> builtin, used on the two event signature strings.
\<close>

record chain_env =
  validateEvent :: "bytes \<Rightarrow> (uint32 \<times> address \<times> bytes \<times> bytes) option"
  keccak256 :: "string \<Rightarrow> bytes32"

text \<open>\<open>mload\<close> on the payload of a bytes array: 32 octets from an offset, big-endian.\<close>

definition be_word :: "bytes \<Rightarrow> 256 word" where
  "be_word bs = foldl (\<lambda>acc b. push_bit 8 acc + ucast b) 0 bs"

definition mload :: "bytes \<Rightarrow> nat \<Rightarrow> bytes32" where
  "mload bs off = be_word (take 32 (drop off bs))"

text \<open>
  \<open>abi.decode\<close> of a tuple of static types reads one 32-byte slot per component and
  reverts when the data is shorter than the tuple or when a slot holds a value outside
  its type (a \<open>uint32\<close> slot above \<open>2^32 - 1\<close>, an \<open>address\<close> slot above \<open>2^160 - 1\<close>).
\<close>

definition slot :: "bytes \<Rightarrow> nat \<Rightarrow> 256 word" where
  "slot bs i = mload bs (32 * i)"

definition fits_uint32 :: "256 word \<Rightarrow> bool" where
  "fits_uint32 w = (unat w < 2 ^ 32)"

definition fits_address :: "256 word \<Rightarrow> bool" where
  "fits_address w = (unat w < 2 ^ 160)"

definition abi_decode_OrderCreated ::
  "bytes \<Rightarrow> (uint32 \<times> bytes32 \<times> uint256 \<times> address \<times> uint256 \<times> uint256 \<times> uint32 \<times> address
     \<times> uint256) option" where
  "abi_decode_OrderCreated bs =
     (if length bs < 9 * 32 \<or> \<not> fits_uint32 (slot bs 0) \<or> \<not> fits_address (slot bs 3)
         \<or> \<not> fits_uint32 (slot bs 6) \<or> \<not> fits_address (slot bs 7)
      then None
      else Some (ucast (slot bs 0), slot bs 1, slot bs 2, ucast (slot bs 3), slot bs 4,
                 slot bs 5, ucast (slot bs 6), ucast (slot bs 7), slot bs 8))"

definition abi_decode_Confirmation ::
  "bytes \<Rightarrow> (uint256 \<times> address \<times> bytes32 \<times> uint256) option" where
  "abi_decode_Confirmation bs =
     (if length bs < 4 * 32 \<or> \<not> fits_address (slot bs 1) then None
      else Some (slot bs 0, ucast (slot bs 1), slot bs 2, slot bs 3))"

text \<open>
  The assembly loop of both entry points: the first \<open>n\<close> 32-byte topics of the
  concatenated topics, read once their length has been checked.
\<close>

definition splitTopics :: "nat \<Rightarrow> bytes \<Rightarrow> bytes32 list" where
  "splitTopics n topics = map (\<lambda>i. mload topics (i * 32)) [0 ..< n]"

definition authorizeSourceContract :: "storage \<Rightarrow> uint32 \<Rightarrow> address \<Rightarrow> bool \<Rightarrow> outcome" where
  "authorizeSourceContract s chainId contractAddress authorized =
     Done (s\<lparr>authorizedContracts :=
               (authorizedContracts s)
                 (chainId := (authorizedContracts s chainId)(contractAddress := authorized))\<rparr>)
          []"

definition openOrder :: "chain_env \<Rightarrow> storage \<Rightarrow> bytes \<Rightarrow> outcome" where
  "openOrder env s proof =
     (case validateEvent env proof of
        None \<Rightarrow> Reverted ProverReverted s
      | Some (sourceChainId, sourceContract, topics, unindexedData) \<Rightarrow>
          if \<not> length topics \<ge> 96 then Reverted (Require ''Invalid topics length'') s
          else
            let topicsArray = splitTopics 3 topics;
                expectedSelector = keccak256 env
                  ''OrderCreated(bytes32,bytes4,uint32,bytes32,uint256,address,uint256,uint256,uint32,address,uint256)''
            in
            if \<not> topicsArray ! 0 = expectedSelector
            then Reverted (Require ''Invalid event signature'') s
            else
              let id = topicsArray ! 1;
                  destination = topicsArray ! 2
              in
              if \<not> state (orders s id) = NONEXISTENT
              then Reverted (Require ''Order already exists'') s
              else
                (case abi_decode_OrderCreated unindexedData of
                   None \<Rightarrow> Reverted AbiDecodeReverted s
                 | Some decoded \<Rightarrow>
                     let (asset, targetAccount, amount, rewardAsset, insurance, maxReward, nonce,
                          sourceAccount, orderTimestamp) = decoded;
                         s1 = s\<lparr>orders := (orders s)(id :=
                                 \<lparr>state = OPEN,
                                  sourceAccount = sourceAccount,
                                  targetAccount = targetAccount,
                                  amount = amount,
                                  rewardAsset = rewardAsset,
                                  confirmationId = 0,
                                  timestamp = orderTimestamp,
                                  nonce = nonce,
                                  networkId = destination\<rparr>)\<rparr>
                     in Done s1
                          [OrderOpened id destination asset targetAccount amount rewardAsset
                             insurance maxReward nonce sourceAccount orderTimestamp]))"

definition orderCompleted :: "chain_env \<Rightarrow> storage \<Rightarrow> bytes \<Rightarrow> outcome" where
  "orderCompleted env s proof =
     (case validateEvent env proof of
        None \<Rightarrow> Reverted ProverReverted s
      | Some (sourceChainId, sourceContract, topics, unindexedData) \<Rightarrow>
          if \<not> length topics \<ge> 128 then Reverted (Require ''Invalid topics length'') s
          else
            let topicsArray = splitTopics 4 topics;
                expectedSelector = keccak256 env
                  ''Confirmation(bytes32,address,uint256,address,address,bytes32,uint256)''
            in
            if \<not> topicsArray ! 0 = expectedSelector
            then Reverted (Require ''Invalid event signature'') s
            else
              let id = topicsArray ! 1;
                  target = (ucast (topicsArray ! 2) :: address)
              in
              if \<not> state (orders s id) = OPEN
              then Reverted (Require ''Order not in open state'') s
              else
                (case abi_decode_Confirmation unindexedData of
                   None \<Rightarrow> Reverted AbiDecodeReverted s
                 | Some decoded \<Rightarrow>
                     let (amount, asset, confirmationId, timestamp) = decoded in
                     if \<not> OrderInfo.amount (orders s id) = amount
                     then Reverted (Require ''Amount mismatch between order and confirmation'') s
                     else
                       let s1 = s\<lparr>orders := (orders s)(id := (orders s id)\<lparr>state := COMPLETED\<rparr>)\<rparr>;
                           s2 = s1\<lparr>orders := (orders s1)(id :=
                                   (orders s1 id)\<lparr>confirmationId := confirmationId\<rparr>)\<rparr>;
                           s3 = s2\<lparr>orders := (orders s2)(id :=
                                   (orders s2 id)\<lparr>timestamp := timestamp\<rparr>)\<rparr>
                       in Done s3
                            [OrderCompleted id target confirmationId amount asset timestamp,
                             ReclaimReady id (sourceAccount (orders s3 id))
                               (rewardAsset (orders s3 id)) timestamp]))"

definition isOrderOpen :: "storage \<Rightarrow> bytes32 \<Rightarrow> bool" where
  "isOrderOpen s = (\<lambda>id. state (orders s id) = OPEN)"

definition isOrderCompleted :: "storage \<Rightarrow> bytes32 \<Rightarrow> bool" where
  "isOrderCompleted s = (\<lambda>id. state (orders s id) = COMPLETED)"

text \<open>
  A transaction is one external call. When the call reverts the EVM discards every write
  of the call, so the storage a transaction commits is the one the call ended with, or the
  one it started from.
\<close>

datatype call =
    CallOpenOrder bytes
  | CallOrderCompleted bytes
  | CallAuthorizeSourceContract uint32 address bool

definition invoke :: "chain_env \<Rightarrow> storage \<Rightarrow> call \<Rightarrow> outcome" where
  "invoke env s c =
     (case c of
        CallOpenOrder proof \<Rightarrow> openOrder env s proof
      | CallOrderCompleted proof \<Rightarrow> orderCompleted env s proof
      | CallAuthorizeSourceContract chainId contractAddress authorized \<Rightarrow>
          authorizeSourceContract s chainId contractAddress authorized)"

definition committed :: "storage \<Rightarrow> outcome \<Rightarrow> storage" where
  "committed s out = (case out of Reverted r s' \<Rightarrow> s | Done s' evs \<Rightarrow> s')"

text \<open>
  A history of the contract is a list of transactions, each paired with the environment
  it ran in (the prover is another contract, whose answers may change between calls).
\<close>

definition transact :: "storage \<Rightarrow> chain_env \<times> call \<Rightarrow> storage" where
  "transact s tx = committed s (invoke (fst tx) s (snd tx))"

definition run :: "storage \<Rightarrow> (chain_env \<times> call) list \<Rightarrow> storage" where
  "run s txs = foldl transact s txs"

text \<open>The numeric value of the enum, as Solidity declares it.\<close>

fun rank :: "OrderState \<Rightarrow> nat" where
  "rank NONEXISTENT = 0"
| "rank OPEN = 1"
| "rank COMPLETED = 2"

text \<open>
  What a caller can observe of a call: the revert reason, or the order records it leaves
  and the events it emitted.
\<close>

definition observable :: "outcome \<Rightarrow> revert_reason + (bytes32 \<Rightarrow> OrderInfo) \<times> event list" where
  "observable out = (case out of Reverted r s' \<Rightarrow> Inl r | Done s' evs \<Rightarrow> Inr (orders s', evs))"

section \<open>The executor: bun-executor-listener/executor.ts\<close>

text \<open>
  An \<open>ethers.Log\<close>, with the fields the executor reads. \<open>Interface.parseLog\<close> is a library
  call: it returns the decoded arguments, returns null, or throws.
\<close>

record Log =
  transactionHash :: string
  blockNumber :: int
  index :: int

datatype 'a parsed = Throws | Null | Parsed 'a

text \<open>The positional arguments of the two spoke events, typed as the spoke ABI types them.\<close>

record OrderCreatedArgs =
  arg0_id :: string
  arg1_destination :: string
  arg2_asset :: int
  arg3_targetAccount :: string
  arg4_amount :: int
  arg5_rewardAsset :: string
  arg6_insurance :: int
  arg7_maxReward :: int
  arg8_nonce :: int
  arg9_sourceAccount :: string
  arg10_orderTimestamp :: int

record ConfirmationArgs =
  carg0_id :: string
  carg1_target :: string
  carg2_amount :: int
  carg3_asset :: string
  carg4_sender :: string
  carg5_confirmationId :: string
  carg6_timestamp :: int

text \<open>
  The request \<open>callExecutorAPI\<close> posts, and the four ways the post can end: a response
  with both success flags set, a response without them, an axios error, any other throw.
\<close>

record relay_request =
  srcChainId :: int
  srcBlockNumber :: int
  globalLogIndex :: int
  relayMethod :: string

datatype api_result = Executed | ExecutionFailed | AxiosError | OtherError

text \<open>
  The module-level state of the executor, and the posts made so far with the result of
  each (the effect of the executor on the outside).
\<close>

record executor_state =
  processedTxs :: "string set"
  pendingOrderIdsFromUnichain :: "string set"
  relayed :: "(relay_request \<times> api_result) list"

definition UNICHAIN_ID :: int where
  "UNICHAIN_ID = 1301"

definition BASE_ID :: int where
  "BASE_ID = 84532"

text \<open>
  \<open>callExecutorAPI\<close> posts the request and logs what came back. Every failure is caught
  and logged inside: the function returns nothing and never throws, whatever the result.
\<close>

definition callExecutorAPI ::
  "(relay_request \<Rightarrow> api_result) \<Rightarrow> int \<Rightarrow> int \<Rightarrow> int \<Rightarrow> string \<Rightarrow> executor_state
     \<Rightarrow> executor_state" where
  "callExecutorAPI api chainId blockNo logIndex destMethod st =
     (let payload = \<lparr>srcChainId = chainId, srcBlockNumber = blockNo,
                      globalLogIndex = logIndex, relayMethod = destMethod\<rparr>
      in case api payload of
           Executed \<Rightarrow> st\<lparr>relayed := relayed st @ [(payload, Executed)]\<rparr>
         | ExecutionFailed \<Rightarrow> st\<lparr>relayed := relayed st @ [(payload, ExecutionFailed)]\<rparr>
         | AxiosError \<Rightarrow> st\<lparr>relayed := relayed st @ [(payload, AxiosError)]\<rparr>
         | OtherError \<Rightarrow> st\<lparr>relayed := relayed st @ [(payload, OtherError)]\<rparr>)"

text \<open>
  \<open>toLowerCase\<close> and \<open>startsWith\<close> on the hexadecimal strings ethers returns (ASCII).
\<close>

definition toLowerCase :: "string \<Rightarrow> string" where
  "toLowerCase str =
     map (\<lambda>c. case map_of (zip ''ABCDEFGHIJKLMNOPQRSTUVWXYZ'' ''abcdefghijklmnopqrstuvwxyz'') c of
                 None \<Rightarrow> c
               | Some lower \<Rightarrow> lower) str"

definition startsWith :: "string \<Rightarrow> string \<Rightarrow> bool" where
  "startsWith str searchString = (take (length searchString) str = searchString)"

text \<open>
  The two processors. The whole body of each is inside one \<open>try\<close> whose \<open>catch\<close> logs,
  so a throw of \<open>parseLog\<close> ends the call with the state as it was at the throw, and
  no call of a processor throws. The check of the processed set and the insertion into
  it have no \<open>await\<close> between them.
\<close>

definition processOrderCreatedEvent ::
  "(Log \<Rightarrow> OrderCreatedArgs parsed) \<Rightarrow> (relay_request \<Rightarrow> api_result) \<Rightarrow> Log
     \<Rightarrow> executor_state \<Rightarrow> executor_state" where
  "processOrderCreatedEvent parseLog api log st =
     (let txHash = transactionHash log;
          blockNo = blockNumber log;
          logIndex = index log
      in
      if txHash \<in> processedTxs st then st
      else
        let st1 = st\<lparr>processedTxs := insert txHash (processedTxs st)\<rparr> in
        case parseLog log of
          Throws \<Rightarrow> st1
        | Null \<Rightarrow> st1
        | Parsed parsedLog \<Rightarrow>
            let rawDestinationHex = arg1_destination parsedLog;
                expectedBaseDestinationHexPrefix = ''0x62617374''
            in
            if \<not> startsWith (toLowerCase rawDestinationHex) expectedBaseDestinationHexPrefix
            then st1
            else
              let st2 = st1\<lparr>pendingOrderIdsFromUnichain :=
                              insert (arg0_id parsedLog) (pendingOrderIdsFromUnichain st1)\<rparr>
              in callExecutorAPI api UNICHAIN_ID blockNo logIndex ''openOrder'' st2)"

definition processConfirmationEvent ::
  "(Log \<Rightarrow> ConfirmationArgs parsed) \<Rightarrow> (relay_request \<Rightarrow> api_result) \<Rightarrow> Log
     \<Rightarrow> executor_state \<Rightarrow> executor_state" where
  "processConfirmationEvent parseLog api log st =
     (let txHash = transactionHash log;
          blockNo = blockNumber log;
          logIndex = index log
      in
      if txHash \<in> processedTxs st then st
      else
        let st1 = st\<lparr>processedTxs := insert txHash (processedTxs st)\<rparr> in
        case parseLog log of
          Throws \<Rightarrow> st1
        | Null \<Rightarrow> st1
        | Parsed parsedLog \<Rightarrow>
            if \<not> carg0_id parsedLog \<in> pendingOrderIdsFromUnichain st1 then st1
            else
              let st2 = callExecutorAPI api BASE_ID blockNo logIndex ''orderCompleted'' st1
              in st2\<lparr>pendingOrderIdsFromUnichain :=
                         pendingOrderIdsFromUnichain st2 - {carg0_id parsedLog}\<rparr>)"

text \<open>
  One tick of \<open>pollForEvents\<close> on one chain. The provider answers \<open>getBlockNumber\<close> and
  \<open>getLogs\<close> or throws (\<open>None\<close>); \<open>abiEvents\<close> are the event names of the contract's ABI,
  where \<open>getEvent\<close> looks the name up. The function returns the new watermark. The \<open>try\<close>
  of the source encloses the loop over the logs as well; the two processors never throw,
  so a processor is a total function here and the \<open>catch\<close> is reached from
  \<open>getBlockNumber\<close> and \<open>getLogs\<close> only.
\<close>

record provider =
  getBlockNumber :: "int option"
  getLogs :: "int \<Rightarrow> int \<Rightarrow> Log list option"

definition pollForEvents ::
  "provider \<Rightarrow> string list \<Rightarrow> string \<Rightarrow> (Log \<Rightarrow> executor_state \<Rightarrow> executor_state) \<Rightarrow> int
     \<Rightarrow> executor_state \<Rightarrow> int \<times> executor_state" where
  "pollForEvents rpc abiEvents eventName processor lastProcessedBlock st =
     (case getBlockNumber rpc of
        None \<Rightarrow> (lastProcessedBlock, st)
      | Some currentBlock \<Rightarrow>
          if currentBlock \<le> lastProcessedBlock then (lastProcessedBlock, st)
          else if \<not> eventName \<in> set abiEvents then (lastProcessedBlock, st)
          else
            (case getLogs rpc (lastProcessedBlock + 1) currentBlock of
               None \<Rightarrow> (lastProcessedBlock, st)
             | Some logs \<Rightarrow> (currentBlock, foldl (\<lambda>acc log. processor log acc) st logs)))"

text \<open>
  \<open>startPolling\<close> takes the height of each chain as the first watermark of its poller
  (\<open>None\<close> when the call throws and the process exits).
\<close>

definition startPolling :: "int option \<Rightarrow> int option \<Rightarrow> (int \<times> int) option" where
  "startPolling unichainHeight baseHeight =
     (case unichainHeight of
        None \<Rightarrow> None
      | Some lastUnichainBlock \<Rightarrow>
          (case baseHeight of
             None \<Rightarrow> None
           | Some lastBaseBlock \<Rightarrow> Some (lastUnichainBlock, lastBaseBlock)))"

text \<open>
  A delivery is one call of a processor from a poller; a history of the executor is a list
  of deliveries, each with the answers the library and the API gave during it.
\<close>

datatype delivery =
    Created "Log \<Rightarrow> OrderCreatedArgs parsed" "relay_request \<Rightarrow> api_result" Log
  | Confirmed "Log \<Rightarrow> ConfirmationArgs parsed" "relay_request \<Rightarrow> api_result" Log

fun deliveredLog :: "delivery \<Rightarrow> Log" where
  "deliveredLog (Created parseLog api log) = log"
| "deliveredLog (Confirmed parseLog api log) = log"

fun deliver :: "executor_state \<Rightarrow> delivery \<Rightarrow> executor_state" where
  "deliver st (Created parseLog api log) = processOrderCreatedEvent parseLog api log st"
| "deliver st (Confirmed parseLog api log) = processConfirmationEvent parseLog api log st"

section \<open>The hub listener: bun-executor-listener/listener.ts\<close>

text \<open>
  An \<open>ethers.EventLog\<close> is a log with the event name and the decoded arguments of the
  ABI; a log the ABI does not decode has no arguments.
\<close>

record EventLog = Log +
  eventName :: string
  args :: "string list option"

text \<open>
  The provider and contract of the hub for one tick: \<open>getBlockNumber\<close> and \<open>queryFilter\<close>
  (by filter name, from block, to block), each answering or throwing (\<open>None\<close>).
\<close>

record hub_provider =
  hubBlockNumber :: "int option"
  queryFilter :: "string \<Rightarrow> int \<Rightarrow> int \<Rightarrow> EventLog list option"

text \<open>
  The module-level state of the listener (\<open>connected\<close>: provider and contract are set),
  what it printed, and two traces the source does not keep, for stating what a tick did:
  the \<open>queryFilter\<close> calls it made and the events \<open>processHubEvent\<close> was called on, in
  call order. The hub ABI of contracts.ts declares the three events, so the guards of
  \<open>pollForHubEvents\<close> on missing filters never fire and are left out; the arguments of a
  decoded event have every field the listener prints, so printing does not throw.
\<close>

record hub_state =
  connected :: bool
  lastPolledBlock :: int
  processedEventIds :: "string set"
  console :: "string list"
  queried :: "(string \<times> int \<times> int) list"
  delivered :: "EventLog list"

definition CATCH_UP_BLOCK_COUNT :: int where
  "CATCH_UP_BLOCK_COUNT = 100"

definition listener_loaded :: hub_state where
  "listener_loaded =
     \<lparr>connected = False, lastPolledBlock = - 1, processedEventIds = {}, console = [],
      queried = [], delivered = []\<rparr>"

text \<open>The decimal form of an integer, as a template string prints a number.\<close>

function decimal :: "nat \<Rightarrow> string" where
  "decimal n =
     (if n < 10 then [''0123456789'' ! n]
      else decimal (n div 10) @ [''0123456789'' ! (n mod 10)])"
  by pat_completeness auto
termination
  by (relation "measure (\<lambda>n. n)") auto

declare decimal.simps [simp del]

definition numberToString :: "int \<Rightarrow> string" where
  "numberToString i = (if i < 0 then CHR ''-'' # decimal (nat (- i)) else decimal (nat i))"

definition processHubEvent :: "EventLog \<Rightarrow> hub_state \<Rightarrow> hub_state" where
  "processHubEvent event st0 =
     (let st = st0\<lparr>delivered := delivered st0 @ [event]\<rparr>;
          eventUniqueId = transactionHash event @ '':'' @ numberToString (index event)
      in
      if eventUniqueId \<in> processedEventIds st then st
      else
        (case args event of
           None \<Rightarrow> st\<lparr>console := console st @ [''Event has no args, skipping:'']\<rparr>
         | Some a \<Rightarrow>
             let st1 =
                   (if eventName event = ''OrderOpened''
                    then st\<lparr>console := console st @ [''Order Opened (Polled):'']\<rparr>
                    else if eventName event = ''OrderCompleted''
                    then st\<lparr>console := console st @ [''Order Completed (Polled):'']\<rparr>
                    else if eventName event = ''ReclaimReady''
                    then st\<lparr>console := console st @ [''Reclaim Ready (Polled):'']\<rparr>
                    else st)
             in st1\<lparr>processedEventIds := insert eventUniqueId (processedEventIds st1)\<rparr>))"

text \<open>
  \<open>Array.prototype.sort\<close> with a comparator: a stable sort, an element staying before
  the later elements it does not compare greater than.
\<close>

definition compareEvents :: "EventLog \<Rightarrow> EventLog \<Rightarrow> int" where
  "compareEvents a b =
     (if blockNumber a \<noteq> blockNumber b then blockNumber a - blockNumber b
      else index a - index b)"

fun insertSorted :: "('a \<Rightarrow> 'a \<Rightarrow> int) \<Rightarrow> 'a \<Rightarrow> 'a list \<Rightarrow> 'a list" where
  "insertSorted cmp x [] = [x]"
| "insertSorted cmp x (y # ys) =
     (if cmp x y \<le> 0 then x # y # ys else y # insertSorted cmp x ys)"

definition arraySort :: "('a \<Rightarrow> 'a \<Rightarrow> int) \<Rightarrow> 'a list \<Rightarrow> 'a list" where
  "arraySort cmp xs = foldr (insertSorted cmp) xs []"

definition pollForHubEvents :: "hub_provider \<Rightarrow> hub_state \<Rightarrow> hub_state" where
  "pollForHubEvents rpc st =
     (if \<not> connected st then st
      else
        (case hubBlockNumber rpc of
           None \<Rightarrow> st
         | Some currentBlock \<Rightarrow>
             let st1 = (if lastPolledBlock st = - 1
                        then st\<lparr>lastPolledBlock := max 0 (currentBlock - CATCH_UP_BLOCK_COUNT)\<rparr>
                        else st)
             in
             if currentBlock \<le> lastPolledBlock st1 then st1
             else
               let fromBlock = lastPolledBlock st1 + 1;
                   toBlock = currentBlock;
                   filters = [''OrderOpened'', ''OrderCompleted'', ''ReclaimReady''];
                   st2 = st1\<lparr>queried := queried st1 @ map (\<lambda>f. (f, fromBlock, toBlock)) filters\<rparr>
               in
               (case those (map (\<lambda>f. queryFilter rpc f fromBlock toBlock) filters) of
                  None \<Rightarrow> st2
                | Some eventArrays \<Rightarrow>
                    let allEvents = concat eventArrays;
                        st3 = (if length allEvents > 0
                               then foldl (\<lambda>acc event. processHubEvent event acc) st2
                                      (arraySort compareEvents allEvents)
                               else st2)
                    in st3\<lparr>lastPolledBlock := toBlock\<rparr>)))"

text \<open>
  \<open>startHubListener\<close> sets provider and contract, reads the height (\<open>None\<close>: the
  connection test or the read throws, and the start is retried later), sets the watermark
  and polls at once.
\<close>

definition startHubListener :: "int option \<Rightarrow> hub_provider \<Rightarrow> hub_state \<Rightarrow> hub_state" where
  "startHubListener initialHeight rpc st =
     (let st0 = st\<lparr>connected := True\<rparr> in
      case initialHeight of
        None \<Rightarrow> st0
      | Some currentBlock \<Rightarrow>
          pollForHubEvents rpc
            (st0\<lparr>lastPolledBlock := max 0 (currentBlock - CATCH_UP_BLOCK_COUNT)\<rparr>))"

section \<open>Concrete inputs\<close>

text \<open>
  A prover, a hash and a storage to run the ledger on. \<open>word32 b\<close> is the 32-byte slot
  holding the value \<open>b\<close>. Proof \<open>[1]\<close> attests the creation of order \<open>0xAA\<close> with amount
  100, proof \<open>[2]\<close> its confirmation with amount 100, proof \<open>[3]\<close> a confirmation of the
  same order with amount 99.
\<close>

definition word32 :: "8 word \<Rightarrow> bytes" where
  "word32 b = replicate 31 0 @ [b]"

definition demo_prover :: "bytes \<Rightarrow> (uint32 \<times> address \<times> bytes \<times> bytes) option" where
  "demo_prover proof =
     (if proof = [1] then
        Some (1301, 0x1C, word32 1 @ word32 0xAA @ word32 0x62,
              word32 7 @ word32 0xBB @ word32 100 @ word32 0xCC @ word32 3 @ word32 4 @
              word32 5 @ word32 0xDD @ word32 60)
      else if proof = [2] then
        Some (84532, 0xCE, word32 2 @ word32 0xAA @ word32 0xEE @ word32 0xFF,
              word32 100 @ word32 0xCC @ word32 9 @ word32 70)
      else if proof = [3] then
        Some (84532, 0xCE, word32 2 @ word32 0xAA @ word32 0xEE @ word32 0xFF,
              word32 99 @ word32 0xCC @ word32 9 @ word32 70)
      else None)"

definition demo_keccak256 :: "string \<Rightarrow> bytes32" where
  "demo_keccak256 sig =
     (if sig = ''OrderCreated(bytes32,bytes4,uint32,bytes32,uint256,address,uint256,uint256,uint32,address,uint256)''
      then 1
      else if sig = ''Confirmation(bytes32,address,uint256,address,address,bytes32,uint256)''
      then 2 else 0)"

definition demo_env :: chain_env where
  "demo_env = \<lparr>validateEvent = demo_prover, keccak256 = demo_keccak256\<rparr>"

text \<open>The same prover reporting another source chain and another emitting contract.\<close>

definition demo_env_elsewhere :: chain_env where
  "demo_env_elsewhere =
     \<lparr>validateEvent =
        (\<lambda>proof. map_option (\<lambda>(chainId, emittingContract, topics, data).
                    (999, 0x99, topics, data)) (demo_prover proof)),
      keccak256 = demo_keccak256\<rparr>"

definition demo_order :: OrderInfo where
  "demo_order =
     \<lparr>state = OPEN, sourceAccount = 0xDD, targetAccount = 0xBB, amount = 100,
      rewardAsset = 0xCC, confirmationId = 0, timestamp = 60, nonce = 5, networkId = 0x62\<rparr>"

definition demo_open :: storage where
  "demo_open = deployed\<lparr>orders := (orders deployed)(0xAA := demo_order)\<rparr>"

text \<open>
  Logs, library answers and API answers to run the executor on. The creation logs of
  transactions \<open>0x01\<close> and \<open>0x04\<close> carry order \<open>0xAA\<close>, the one of \<open>0x02\<close> order \<open>0xBB\<close>.
\<close>

definition executor_loaded :: executor_state where
  "executor_loaded = \<lparr>processedTxs = {}, pendingOrderIdsFromUnichain = {}, relayed = []\<rparr>"

definition demo_created_first :: Log where
  "demo_created_first = \<lparr>transactionHash = ''0x01'', blockNumber = 5, index = 0\<rparr>"

definition demo_created_other :: Log where
  "demo_created_other = \<lparr>transactionHash = ''0x02'', blockNumber = 3, index = 1\<rparr>"

definition demo_created_again :: Log where
  "demo_created_again = \<lparr>transactionHash = ''0x04'', blockNumber = 6, index = 0\<rparr>"

definition demo_confirmation :: Log where
  "demo_confirmation = \<lparr>transactionHash = ''0x03'', blockNumber = 9, index = 2\<rparr>"

definition demo_parseCreated :: "string \<Rightarrow> Log \<Rightarrow> OrderCreatedArgs parsed" where
  "demo_parseCreated destination log =
     Parsed \<lparr>arg0_id = (if transactionHash log = ''0x02'' then ''0xBB'' else ''0xAA''),
             arg1_destination = destination, arg2_asset = 7,
             arg3_targetAccount = ''0xBB'', arg4_amount = 100, arg5_rewardAsset = ''0xCC'',
             arg6_insurance = 3, arg7_maxReward = 4, arg8_nonce = 5,
             arg9_sourceAccount = ''0xDD'', arg10_orderTimestamp = 60\<rparr>"

definition demo_parseConfirmation :: "Log \<Rightarrow> ConfirmationArgs parsed" where
  "demo_parseConfirmation log =
     Parsed \<lparr>carg0_id = ''0xAA'', carg1_target = ''0xEE'', carg2_amount = 100,
             carg3_asset = ''0xCC'', carg4_sender = ''0xFF'', carg5_confirmationId = ''0x09'',
             carg6_timestamp = 70\<rparr>"

definition api_always :: "api_result \<Rightarrow> relay_request \<Rightarrow> api_result" where
  "api_always result request = result"

definition demo_pending :: executor_state where
  "demo_pending = executor_loaded\<lparr>pendingOrderIdsFromUnichain := {''0xAA''}\<rparr>"

text \<open>
  A provider at a given height serving the logs of a given list, in the order of the list;
  a provider that is down; a provider that answers the height and fails on the logs; the
  event names of the spoke ABI.
\<close>

definition demo_provider :: "int \<Rightarrow> Log list \<Rightarrow> provider" where
  "demo_provider height logs =
     \<lparr>getBlockNumber = Some height,
      getLogs = (\<lambda>fromBlock toBlock.
         Some (filter (\<lambda>log. fromBlock \<le> blockNumber log \<and> blockNumber log \<le> toBlock) logs))\<rparr>"

definition demo_provider_down :: provider where
  "demo_provider_down = \<lparr>getBlockNumber = None, getLogs = (\<lambda>fromBlock toBlock. None)\<rparr>"

definition demo_provider_no_logs :: "int \<Rightarrow> provider" where
  "demo_provider_no_logs height =
     \<lparr>getBlockNumber = Some height, getLogs = (\<lambda>fromBlock toBlock. None)\<rparr>"

definition SPOKE_CONTRACT_ABI :: "string list" where
  "SPOKE_CONTRACT_ABI = [''OrderCreated'', ''Confirmation'']"

text \<open>
  A hub at a given height whose three filters return one event each: an OrderOpened at
  (7, 1), an OrderCompleted at (7, 0) and a ReclaimReady at (4, 3).
\<close>

definition demo_hub_event :: "string \<Rightarrow> string \<Rightarrow> int \<Rightarrow> int \<Rightarrow> EventLog" where
  "demo_hub_event name txHash blockNo logIndex =
     \<lparr>transactionHash = txHash, blockNumber = blockNo, index = logIndex,
      eventName = name, args = Some []\<rparr>"

definition demo_hub :: "int \<Rightarrow> hub_provider" where
  "demo_hub height =
     \<lparr>hubBlockNumber = Some height,
      queryFilter = (\<lambda>name fromBlock toBlock.
        if name = ''OrderOpened'' then Some [demo_hub_event ''OrderOpened'' ''0x0b'' 7 1]
        else if name = ''OrderCompleted''
        then Some [demo_hub_event ''OrderCompleted'' ''0x0c'' 7 0]
        else Some [demo_hub_event ''ReclaimReady'' ''0x0a'' 4 3])\<rparr>"

text \<open>The order the comparator of the listener sorts by: block number, then log index.\<close>

definition notAfter :: "EventLog \<Rightarrow> EventLog \<Rightarrow> bool" where
  "notAfter a b = (blockNumber a < blockNumber b
                   \<or> (blockNumber a = blockNumber b \<and> index a \<le> index b))"

section \<open>Properties of the ledger\<close>

subsection \<open>Reading slots\<close>

lemma be_word_zeros: "be_word (replicate n 0) = 0"
  by (induction n) (simp_all add: be_word_def)

lemma be_word_word32: "be_word (word32 b) = ucast b"
  using be_word_zeros [of 31] by (simp add: be_word_def word32_def)

lemma length_word32: "length (word32 b) = 32"
  by (simp add: word32_def)

lemma mload_here: "length x = 32 \<Longrightarrow> mload (x @ r) 0 = be_word x"
  by (simp add: mload_def)

lemma mload_last: "length x = 32 \<Longrightarrow> mload x 0 = be_word x"
  by (simp add: mload_def)

lemma mload_skip: "length x = 32 \<Longrightarrow> 32 \<le> k \<Longrightarrow> mload (x @ r) k = mload r (k - 32)"
  by (simp add: mload_def)

lemma splitTopics_3: "splitTopics 3 t = [mload t 0, mload t 32, mload t 64]"
  by (simp add: splitTopics_def numeral_3_eq_3 upt_rec)

lemma splitTopics_4: "splitTopics 4 t = [mload t 0, mload t 32, mload t 64, mload t 96]"
  by (simp add: splitTopics_def eval_nat_numeral upt_rec)

lemmas demo_simps =
  demo_env_def demo_prover_def demo_keccak256_def demo_open_def demo_order_def deployed_def
  zeroOrderInfo_def splitTopics_3 splitTopics_4 mload_here mload_last mload_skip
  be_word_word32 length_word32 slot_def abi_decode_OrderCreated_def
  abi_decode_Confirmation_def fits_uint32_def fits_address_def Let_def

text \<open>
  Scenarios A and B of the specification: the creation proof opens order \<open>0xAA\<close> with
  amount 100, the confirmation proof completes it.
\<close>

lemma scenario_A:
  "openOrder demo_env deployed [1] =
     Done demo_open [OrderOpened 0xAA 0x62 7 0xBB 100 0xCC 3 4 5 0xDD 60]"
  by (simp add: openOrder_def demo_simps)

lemma scenario_B:
  "orderCompleted demo_env demo_open [2] =
     Done (demo_open\<lparr>orders := (orders demo_open)
             (0xAA := demo_order\<lparr>state := COMPLETED, confirmationId := 9, timestamp := 70\<rparr>)\<rparr>)
       [OrderCompleted 0xAA 0xEE 9 100 0xCC 70, ReclaimReady 0xAA 0xDD 0xCC 70]"
  by (simp add: orderCompleted_def demo_simps)

subsection \<open>Rejections\<close>

lemma openOrder_Reverted_same: "openOrder env s proof = Reverted r s' \<Longrightarrow> s' = s"
  by (auto simp: openOrder_def Let_def split: option.splits if_splits prod.splits)

lemma orderCompleted_Reverted_same: "orderCompleted env s proof = Reverted r s' \<Longrightarrow> s' = s"
  by (auto simp: orderCompleted_def Let_def split: option.splits if_splits prod.splits)

text \<open>
  C1. The order id of a proof is the second topic. \<open>openOrder\<close> reverts when the order of
  its proof is OPEN or COMPLETED; \<open>orderCompleted\<close> reverts when the order of its proof is
  not OPEN, and when the amount decoded from the confirmation differs from the stored
  amount. Whenever one of the two reverts, for whatever reason, the storage at the
  failing check is the storage the call started with: nothing was written.
\<close>

theorem ledger_rejects_without_write:
  "(\<forall>c a topics d.
      validateEvent env proof = Some (c, a, topics, d) \<and> 96 \<le> length topics \<and>
      state (orders s (splitTopics 3 topics ! 1)) \<in> {OPEN, COMPLETED}
      \<longrightarrow> (\<exists>r. openOrder env s proof = Reverted r s))
   \<and> (\<forall>c a topics d.
      validateEvent env proof = Some (c, a, topics, d) \<and> 128 \<le> length topics \<and>
      state (orders s (splitTopics 4 topics ! 1)) \<noteq> OPEN
      \<longrightarrow> (\<exists>r. orderCompleted env s proof = Reverted r s))
   \<and> (\<forall>c a topics d amt ast cid ts.
      validateEvent env proof = Some (c, a, topics, d) \<and> 128 \<le> length topics \<and>
      abi_decode_Confirmation d = Some (amt, ast, cid, ts) \<and>
      amt \<noteq> amount (orders s (splitTopics 4 topics ! 1))
      \<longrightarrow> (\<exists>r. orderCompleted env s proof = Reverted r s))
   \<and> (\<forall>r s'. openOrder env s proof = Reverted r s' \<longrightarrow> s' = s)
   \<and> (\<forall>r s'. orderCompleted env s proof = Reverted r s' \<longrightarrow> s' = s)"
proof (intro conjI allI impI)
  fix c a topics d
  assume "validateEvent env proof = Some (c, a, topics, d) \<and> 96 \<le> length topics \<and>
      state (orders s (splitTopics 3 topics ! 1)) \<in> {OPEN, COMPLETED}"
  then show "\<exists>r. openOrder env s proof = Reverted r s"
    by (auto simp: openOrder_def Let_def)
next
  fix c a topics d
  assume "validateEvent env proof = Some (c, a, topics, d) \<and> 128 \<le> length topics \<and>
      state (orders s (splitTopics 4 topics ! 1)) \<noteq> OPEN"
  then show "\<exists>r. orderCompleted env s proof = Reverted r s"
    by (simp add: orderCompleted_def Let_def)
next
  fix c a topics d amt ast cid ts
  assume "validateEvent env proof = Some (c, a, topics, d) \<and> 128 \<le> length topics \<and>
      abi_decode_Confirmation d = Some (amt, ast, cid, ts) \<and>
      amt \<noteq> amount (orders s (splitTopics 4 topics ! 1))"
  then show "\<exists>r. orderCompleted env s proof = Reverted r s"
    by (auto simp: orderCompleted_def Let_def)
next
  fix r s' assume "openOrder env s proof = Reverted r s'"
  then show "s' = s" by (rule openOrder_Reverted_same)
next
  fix r s' assume "orderCompleted env s proof = Reverted r s'"
  then show "s' = s" by (rule orderCompleted_Reverted_same)
qed

theorem ledger_rejects_without_write_witness:
  "(\<exists>r. openOrder demo_env demo_open [1] = Reverted r demo_open)
   \<and> (\<exists>r. orderCompleted demo_env deployed [2] = Reverted r deployed)
   \<and> (\<exists>r. orderCompleted demo_env demo_open [3] = Reverted r demo_open)
   \<and> openOrder demo_env demo_open [1] = Reverted (Require ''Order already exists'') demo_open
   \<and> orderCompleted demo_env demo_open [3] =
       Reverted (Require ''Amount mismatch between order and confirmation'') demo_open"
proof -
  have e1: "\<exists>s'. openOrder demo_env demo_open [1] =
      Reverted (Require ''Order already exists'') s'"
    by (simp add: openOrder_def demo_simps)
  have e3: "\<exists>s'. orderCompleted demo_env demo_open [3] =
      Reverted (Require ''Amount mismatch between order and confirmation'') s'"
    by (simp add: orderCompleted_def demo_simps)
  have f1: "openOrder demo_env demo_open [1] =
      Reverted (Require ''Order already exists'') demo_open"
    using ledger_rejects_without_write [of demo_env "[1]" demo_open] e1 by auto
  have f3: "orderCompleted demo_env demo_open [3] =
      Reverted (Require ''Amount mismatch between order and confirmation'') demo_open"
    using ledger_rejects_without_write [of demo_env "[3]" demo_open] e3 by auto
  have v1: "validateEvent demo_env [1] =
      Some (1301, 0x1C, word32 1 @ word32 0xAA @ word32 0x62,
              word32 7 @ word32 0xBB @ word32 100 @ word32 0xCC @ word32 3 @ word32 4 @
              word32 5 @ word32 0xDD @ word32 60)"
    by (simp add: demo_env_def demo_prover_def)
  have v2: "validateEvent demo_env [2] =
      Some (84532, 0xCE, word32 2 @ word32 0xAA @ word32 0xEE @ word32 0xFF,
              word32 100 @ word32 0xCC @ word32 9 @ word32 70)"
    by (simp add: demo_env_def demo_prover_def)
  have v3: "validateEvent demo_env [3] =
      Some (84532, 0xCE, word32 2 @ word32 0xAA @ word32 0xEE @ word32 0xFF,
              word32 99 @ word32 0xCC @ word32 9 @ word32 70)"
    by (simp add: demo_env_def demo_prover_def)
  have d3: "abi_decode_Confirmation (word32 99 @ word32 0xCC @ word32 9 @ word32 70)
      = Some (99, 0xCC, 9, 70)"
    by (simp add: demo_simps)
  have a: "\<exists>r. openOrder demo_env demo_open [1] = Reverted r demo_open"
    using ledger_rejects_without_write [of demo_env "[1]" demo_open] v1
    by (simp add: demo_simps)
  have b: "\<exists>r. orderCompleted demo_env deployed [2] = Reverted r deployed"
    using ledger_rejects_without_write [of demo_env "[2]" deployed] v2
    by (simp add: demo_simps)
  have c: "\<exists>r. orderCompleted demo_env demo_open [3] = Reverted r demo_open"
    using ledger_rejects_without_write [of demo_env "[3]" demo_open] v3 d3
    by (simp add: demo_simps)
  from a b c f1 f3 show ?thesis by blast
qed

subsection \<open>The life cycle of an order\<close>

lemma openOrder_Done_effect:
  assumes "openOrder env s proof = Done s' evs"
  shows "orders s' j = orders s j
       \<or> (state (orders s j) = NONEXISTENT \<and> state (orders s' j) = OPEN)"
  using assms
  by (auto simp: openOrder_def Let_def split: option.splits if_splits prod.splits)

lemma orderCompleted_Done_effect:
  assumes "orderCompleted env s proof = Done s' evs"
  shows "orders s' j = orders s j
       \<or> (state (orders s j) = OPEN \<and>
          orders s' j = (orders s j)\<lparr>state := COMPLETED,
             confirmationId := confirmationId (orders s' j),
             timestamp := timestamp (orders s' j)\<rparr>)"
  using assms
  by (auto simp: orderCompleted_def Let_def split: option.splits if_splits prod.splits)

lemma transact_cases:
  "orders (transact s tx) j = orders s j
   \<or> (state (orders s j) = NONEXISTENT \<and> state (orders (transact s tx) j) = OPEN)
   \<or> (state (orders s j) = OPEN \<and>
        orders (transact s tx) j = (orders s j)\<lparr>state := COMPLETED,
             confirmationId := confirmationId (orders (transact s tx) j),
             timestamp := timestamp (orders (transact s tx) j)\<rparr>)"
proof (cases "snd tx")
  case (CallOpenOrder p)
  show ?thesis
  proof (cases "openOrder (fst tx) s p")
    case (Reverted r s')
    with CallOpenOrder show ?thesis by (simp add: transact_def invoke_def committed_def)
  next
    case (Done s' evs)
    from openOrder_Done_effect [OF Done, of j] Done CallOpenOrder show ?thesis
      by (auto simp: transact_def invoke_def committed_def)
  qed
next
  case (CallOrderCompleted p)
  show ?thesis
  proof (cases "orderCompleted (fst tx) s p")
    case (Reverted r s')
    with CallOrderCompleted show ?thesis by (simp add: transact_def invoke_def committed_def)
  next
    case (Done s' evs)
    from orderCompleted_Done_effect [OF Done, of j] Done CallOrderCompleted show ?thesis
      by (auto simp: transact_def invoke_def committed_def)
  qed
next
  case (CallAuthorizeSourceContract c a b)
  then show ?thesis
    by (simp add: transact_def invoke_def committed_def authorizeSourceContract_def)
qed

lemma transact_state_step:
  "state (orders (transact s tx) oid) = state (orders s oid)
   \<or> (state (orders s oid) = NONEXISTENT \<and> state (orders (transact s tx) oid) = OPEN)
   \<or> (state (orders s oid) = OPEN \<and> state (orders (transact s tx) oid) = COMPLETED)"
proof -
  have "state ((orders s oid)\<lparr>state := COMPLETED,
             confirmationId := confirmationId (orders (transact s tx) oid),
             timestamp := timestamp (orders (transact s tx) oid)\<rparr>) = COMPLETED"
    by simp
  with transact_cases [of s tx oid] show ?thesis by metis
qed

lemma transact_rank: "rank (state (orders s oid)) \<le> rank (state (orders (transact s tx) oid))"
  using transact_state_step [of s tx oid] by auto

lemma transact_frozen:
  assumes "state (orders s oid) \<noteq> NONEXISTENT"
  shows "sourceAccount (orders (transact s tx) oid) = sourceAccount (orders s oid)
       \<and> targetAccount (orders (transact s tx) oid) = targetAccount (orders s oid)
       \<and> amount (orders (transact s tx) oid) = amount (orders s oid)
       \<and> rewardAsset (orders (transact s tx) oid) = rewardAsset (orders s oid)
       \<and> nonce (orders (transact s tx) oid) = nonce (orders s oid)
       \<and> networkId (orders (transact s tx) oid) = networkId (orders s oid)"
proof -
  let ?done = "(orders s oid)\<lparr>state := COMPLETED,
             confirmationId := confirmationId (orders (transact s tx) oid),
             timestamp := timestamp (orders (transact s tx) oid)\<rparr>"
  have "sourceAccount ?done = sourceAccount (orders s oid)"
    "targetAccount ?done = targetAccount (orders s oid)"
    "amount ?done = amount (orders s oid)"
    "rewardAsset ?done = rewardAsset (orders s oid)"
    "nonce ?done = nonce (orders s oid)"
    "networkId ?done = networkId (orders s oid)"
    by simp_all
  with transact_cases [of s tx oid] assms show ?thesis by metis
qed

lemma transact_stays_existent:
  "state (orders s oid) \<noteq> NONEXISTENT \<Longrightarrow> state (orders (transact s tx) oid) \<noteq> NONEXISTENT"
  using transact_state_step [of s tx oid] by auto

lemma run_rank: "rank (state (orders s oid)) \<le> rank (state (orders (run s txs) oid))"
proof (induction txs arbitrary: s)
  case Nil
  show ?case by (simp add: run_def)
next
  case (Cons tx txs)
  have "rank (state (orders s oid)) \<le> rank (state (orders (transact s tx) oid))"
    by (rule transact_rank)
  also have "\<dots> \<le> rank (state (orders (run (transact s tx) txs) oid))"
    by (rule Cons.IH)
  finally show ?case by (simp add: run_def)
qed

lemma run_frozen:
  "state (orders s oid) \<noteq> NONEXISTENT \<Longrightarrow>
     sourceAccount (orders (run s txs) oid) = sourceAccount (orders s oid)
   \<and> targetAccount (orders (run s txs) oid) = targetAccount (orders s oid)
   \<and> amount (orders (run s txs) oid) = amount (orders s oid)
   \<and> rewardAsset (orders (run s txs) oid) = rewardAsset (orders s oid)
   \<and> nonce (orders (run s txs) oid) = nonce (orders s oid)
   \<and> networkId (orders (run s txs) oid) = networkId (orders s oid)"
proof (induction txs arbitrary: s)
  case Nil
  show ?case by (simp add: run_def)
next
  case (Cons tx txs)
  have ex: "state (orders (transact s tx) oid) \<noteq> NONEXISTENT"
    using Cons.prems by (rule transact_stays_existent)
  from Cons.IH [OF ex] transact_frozen [OF Cons.prems, of tx]
  show ?case by (simp add: run_def)
qed

text \<open>
  C9. One transaction (an \<open>openOrder\<close>, an \<open>orderCompleted\<close> or an
  \<open>authorizeSourceContract\<close>, reverted or not) leaves the state of an order as it is,
  or takes it from NONEXISTENT to OPEN, or from OPEN to COMPLETED. Over any history the
  state never goes back, and once an order exists its sourceAccount, targetAccount,
  amount, rewardAsset, nonce and networkId stay what they are.
\<close>

theorem order_lifecycle_monotone:
  "(state (orders (transact s tx) oid) = state (orders s oid)
      \<or> (state (orders s oid) = NONEXISTENT \<and> state (orders (transact s tx) oid) = OPEN)
      \<or> (state (orders s oid) = OPEN \<and> state (orders (transact s tx) oid) = COMPLETED))
   \<and> rank (state (orders s oid)) \<le> rank (state (orders (run s txs) oid))
   \<and> (state (orders s oid) \<noteq> NONEXISTENT \<longrightarrow>
         sourceAccount (orders (run s txs) oid) = sourceAccount (orders s oid)
       \<and> targetAccount (orders (run s txs) oid) = targetAccount (orders s oid)
       \<and> amount (orders (run s txs) oid) = amount (orders s oid)
       \<and> rewardAsset (orders (run s txs) oid) = rewardAsset (orders s oid)
       \<and> nonce (orders (run s txs) oid) = nonce (orders s oid)
       \<and> networkId (orders (run s txs) oid) = networkId (orders s oid))"
  using transact_state_step [of s tx oid] run_rank [of s oid txs] run_frozen [of s oid txs]
  by blast

theorem order_lifecycle_monotone_witness:
  "state (orders demo_open 0xAA) \<noteq> NONEXISTENT
   \<and> amount (orders (run demo_open
        [(demo_env, CallOrderCompleted [2]), (demo_env, CallOpenOrder [1]),
         (demo_env, CallAuthorizeSourceContract 1301 0x1C True)]) 0xAA) = 100
   \<and> sourceAccount (orders (run demo_open
        [(demo_env, CallOrderCompleted [2]), (demo_env, CallOpenOrder [1]),
         (demo_env, CallAuthorizeSourceContract 1301 0x1C True)]) 0xAA) = 0xDD"
  using order_lifecycle_monotone [of demo_open
      "(demo_env, CallOrderCompleted [2])" "0xAA"
      "[(demo_env, CallOrderCompleted [2]), (demo_env, CallOpenOrder [1]),
        (demo_env, CallAuthorizeSourceContract 1301 0x1C True)]"]
  by (simp add: demo_open_def demo_order_def deployed_def)

subsection \<open>Source authorization\<close>

text \<open>
  C10. Take two storages with the same orders (their \<open>authorizedContracts\<close> may differ
  in any way) and two provers that agree on the topics and the data of a proof (the chain
  id and the emitting contract they report may differ). Then \<open>openOrder\<close> on the one and
  on the other revert with the same reason or leave the same orders and emit the same
  events, and so does \<open>orderCompleted\<close>.
\<close>

theorem authorization_never_enforced:
  assumes "orders s1 = orders s2"
    and "keccak256 env1 = keccak256 env2"
    and "map_option (\<lambda>(chainId, emittingContract, topics, data). (topics, data))
           (validateEvent env1 proof)
         = map_option (\<lambda>(chainId, emittingContract, topics, data). (topics, data))
           (validateEvent env2 proof)"
  shows "observable (openOrder env1 s1 proof) = observable (openOrder env2 s2 proof)
       \<and> observable (orderCompleted env1 s1 proof) = observable (orderCompleted env2 s2 proof)"
proof (cases "validateEvent env1 proof")
  case None
  with assms(3) have "validateEvent env2 proof = None" by simp
  with None show ?thesis
    by (simp add: openOrder_def orderCompleted_def observable_def)
next
  case (Some r1)
  obtain c1 a1 t d where r1: "r1 = (c1, a1, t, d)" by (cases r1) auto
  from Some assms(3) obtain r2 where v2: "validateEvent env2 proof = Some r2"
    by (cases "validateEvent env2 proof") auto
  obtain c2 a2 t2 d2 where r2: "r2 = (c2, a2, t2, d2)" by (cases r2) auto
  from Some v2 r1 r2 assms(3) have td: "t2 = t" "d2 = d" by auto
  have o: "observable (openOrder env1 s1 proof) = observable (openOrder env2 s2 proof)"
    using Some v2 r1 r2 td assms(1,2)
    by (auto simp: openOrder_def observable_def Let_def split: option.splits prod.splits)
  have c: "observable (orderCompleted env1 s1 proof) = observable (orderCompleted env2 s2 proof)"
    using Some v2 r1 r2 td assms(1,2)
    by (auto simp: orderCompleted_def observable_def Let_def split: option.splits prod.splits)
  from o c show ?thesis by simp
qed

theorem authorization_never_enforced_witness:
  "observable (openOrder demo_env
       (committed deployed (authorizeSourceContract deployed 1301 0x1C True)) [1])
     = observable (openOrder demo_env_elsewhere deployed [1])
   \<and> observable (orderCompleted demo_env
       (committed deployed (authorizeSourceContract deployed 1301 0x1C True)) [1])
     = observable (orderCompleted demo_env_elsewhere deployed [1])"
proof -
  have o: "orders (committed deployed (authorizeSourceContract deployed 1301 0x1C True))
      = orders deployed"
    by (simp add: committed_def authorizeSourceContract_def)
  have k: "keccak256 demo_env = keccak256 demo_env_elsewhere"
    by (simp add: demo_env_def demo_env_elsewhere_def)
  have v: "map_option (\<lambda>(chainId, emittingContract, topics, data). (topics, data))
           (validateEvent demo_env [1])
         = map_option (\<lambda>(chainId, emittingContract, topics, data). (topics, data))
           (validateEvent demo_env_elsewhere [1])"
    by (simp add: demo_env_def demo_env_elsewhere_def demo_prover_def)
  from authorization_never_enforced [OF o k v] show ?thesis .
qed

section \<open>Properties of the executor\<close>

lemmas exec_simps = executor_loaded_def demo_created_first_def demo_created_other_def
  demo_created_again_def demo_confirmation_def demo_parseCreated_def demo_parseConfirmation_def
  api_always_def demo_pending_def processOrderCreatedEvent_def processConfirmationEvent_def
  callExecutorAPI_def toLowerCase_def startsWith_def UNICHAIN_ID_def BASE_ID_def Let_def

subsection \<open>Confirmations\<close>

text \<open>
  C2, as stated, fails. Order \<open>0xAA\<close> is pending, its confirmation arrives and the post
  to the Executor API ends in an axios error: the key is removed from the pending set all
  the same.
\<close>

theorem confirmation_unpends_after_failed_relay:
  "''0xAA'' \<in> pendingOrderIdsFromUnichain demo_pending
   \<and> map snd (relayed (processConfirmationEvent demo_parseConfirmation (api_always AxiosError)
        demo_confirmation demo_pending)) = [AxiosError]
   \<and> ''0xAA'' \<notin> pendingOrderIdsFromUnichain
        (processConfirmationEvent demo_parseConfirmation (api_always AxiosError)
           demo_confirmation demo_pending)"
  by (simp add: exec_simps)

text \<open>
  C2, amended. On a confirmation event that parses, whose transaction has not been
  processed and whose order key is pending, the executor posts one "orderCompleted" relay
  call for the block and log index of the event and then removes the key from the pending
  set, whatever the result of the call.
\<close>

theorem confirmation_unpends_after_relay_call:
  assumes "transactionHash log \<notin> processedTxs st"
    and "parseLog log = Parsed a"
    and "carg0_id a \<in> pendingOrderIdsFromUnichain st"
  shows "relayed (processConfirmationEvent parseLog api log st) =
           relayed st @
             [(\<lparr>srcChainId = BASE_ID, srcBlockNumber = blockNumber log,
                globalLogIndex = index log, relayMethod = ''orderCompleted''\<rparr>,
               api \<lparr>srcChainId = BASE_ID, srcBlockNumber = blockNumber log,
                    globalLogIndex = index log, relayMethod = ''orderCompleted''\<rparr>)]
       \<and> pendingOrderIdsFromUnichain (processConfirmationEvent parseLog api log st) =
           pendingOrderIdsFromUnichain st - {carg0_id a}"
  using assms
  by (simp add: processConfirmationEvent_def callExecutorAPI_def Let_def split: api_result.splits)

theorem confirmation_unpends_after_relay_call_witness:
  "transactionHash demo_confirmation \<notin> processedTxs demo_pending
   \<and> relayed (processConfirmationEvent demo_parseConfirmation (api_always ExecutionFailed)
        demo_confirmation demo_pending) =
       [(\<lparr>srcChainId = 84532, srcBlockNumber = 9, globalLogIndex = 2,
          relayMethod = ''orderCompleted''\<rparr>, ExecutionFailed)]
   \<and> pendingOrderIdsFromUnichain (processConfirmationEvent demo_parseConfirmation
        (api_always ExecutionFailed) demo_confirmation demo_pending) = {}"
proof -
  have h: "transactionHash demo_confirmation \<notin> processedTxs demo_pending"
    by (simp add: demo_confirmation_def demo_pending_def executor_loaded_def)
  have p: "demo_parseConfirmation demo_confirmation =
     Parsed \<lparr>carg0_id = ''0xAA'', carg1_target = ''0xEE'', carg2_amount = 100,
             carg3_asset = ''0xCC'', carg4_sender = ''0xFF'', carg5_confirmationId = ''0x09'',
             carg6_timestamp = 70\<rparr>"
    by (simp add: demo_parseConfirmation_def)
  have k: "carg0_id \<lparr>carg0_id = ''0xAA'', carg1_target = ''0xEE'', carg2_amount = 100,
             carg3_asset = ''0xCC'', carg4_sender = ''0xFF'', carg5_confirmationId = ''0x09'',
             carg6_timestamp = 70\<rparr> \<in> pendingOrderIdsFromUnichain demo_pending"
    by (simp add: demo_pending_def executor_loaded_def)
  from confirmation_unpends_after_relay_call [of demo_confirmation demo_pending
      demo_parseConfirmation _ "api_always ExecutionFailed", OF h p] k h
  show ?thesis
    by (simp add: demo_confirmation_def demo_pending_def executor_loaded_def api_always_def
        BASE_ID_def)
qed

subsection \<open>Creations\<close>

text \<open>
  C3, as stated, fails. Order \<open>0xAA\<close> is pending after the creation event of transaction
  \<open>0x01\<close>; the creation event of transaction \<open>0x04\<close> carries the same order key and is
  relayed as well: two "openOrder" calls have been posted.
\<close>

theorem pending_key_relayed_again:
  "''0xAA'' \<in> pendingOrderIdsFromUnichain
       (deliver executor_loaded
          (Created (demo_parseCreated ''0x62617374'') (api_always Executed) demo_created_first))
   \<and> map fst (relayed (foldl deliver executor_loaded
        [Created (demo_parseCreated ''0x62617374'') (api_always Executed) demo_created_first,
         Created (demo_parseCreated ''0x62617374'') (api_always Executed) demo_created_again]))
      = [\<lparr>srcChainId = 1301, srcBlockNumber = 5, globalLogIndex = 0, relayMethod = ''openOrder''\<rparr>,
         \<lparr>srcChainId = 1301, srcBlockNumber = 6, globalLogIndex = 0, relayMethod = ''openOrder''\<rparr>]"
  by (simp add: exec_simps)

text \<open>
  C3, amended. The pending set holds a key at most once: a creation event whose order key
  is already pending leaves the pending set as it is. The event is not dropped for that
  reason: when its transaction has not been processed, it parses and its destination has
  the Base prefix, one more "openOrder" relay call is posted for it.
\<close>

theorem pending_key_created_again:
  assumes "transactionHash log \<notin> processedTxs st"
    and "parseLog log = Parsed a"
    and "startsWith (toLowerCase (arg1_destination a)) ''0x62617374''"
    and "arg0_id a \<in> pendingOrderIdsFromUnichain st"
  shows "pendingOrderIdsFromUnichain (processOrderCreatedEvent parseLog api log st) =
           pendingOrderIdsFromUnichain st
       \<and> relayed (processOrderCreatedEvent parseLog api log st) =
           relayed st @
             [(\<lparr>srcChainId = UNICHAIN_ID, srcBlockNumber = blockNumber log,
                globalLogIndex = index log, relayMethod = ''openOrder''\<rparr>,
               api \<lparr>srcChainId = UNICHAIN_ID, srcBlockNumber = blockNumber log,
                    globalLogIndex = index log, relayMethod = ''openOrder''\<rparr>)]"
  using assms
  by (auto simp add: processOrderCreatedEvent_def callExecutorAPI_def Let_def
      split: api_result.splits)

theorem pending_key_created_again_witness:
  "transactionHash demo_created_again \<notin> processedTxs demo_pending
   \<and> startsWith (toLowerCase ''0x62617374'') ''0x62617374''
   \<and> pendingOrderIdsFromUnichain (processOrderCreatedEvent (demo_parseCreated ''0x62617374'')
        (api_always Executed) demo_created_again demo_pending) = {''0xAA''}
   \<and> relayed (processOrderCreatedEvent (demo_parseCreated ''0x62617374'')
        (api_always Executed) demo_created_again demo_pending) =
       [(\<lparr>srcChainId = 1301, srcBlockNumber = 6, globalLogIndex = 0,
          relayMethod = ''openOrder''\<rparr>, Executed)]"
proof -
  have h: "transactionHash demo_created_again \<notin> processedTxs demo_pending"
    by (simp add: demo_created_again_def demo_pending_def executor_loaded_def)
  have p: "demo_parseCreated ''0x62617374'' demo_created_again =
     Parsed \<lparr>arg0_id = ''0xAA'', arg1_destination = ''0x62617374'', arg2_asset = 7,
             arg3_targetAccount = ''0xBB'', arg4_amount = 100, arg5_rewardAsset = ''0xCC'',
             arg6_insurance = 3, arg7_maxReward = 4, arg8_nonce = 5,
             arg9_sourceAccount = ''0xDD'', arg10_orderTimestamp = 60\<rparr>"
    by (simp add: demo_parseCreated_def demo_created_again_def)
  have d: "startsWith (toLowerCase ''0x62617374'') ''0x62617374''"
    by (simp add: toLowerCase_def startsWith_def)
  have k: "''0xAA'' \<in> pendingOrderIdsFromUnichain demo_pending"
    by (simp add: demo_pending_def executor_loaded_def)
  from pending_key_created_again [of demo_created_again demo_pending
      "demo_parseCreated ''0x62617374''" _ "api_always Executed", OF h p] d k h
  show ?thesis
    by (simp add: demo_created_again_def demo_pending_def executor_loaded_def api_always_def
        UNICHAIN_ID_def)
qed

text \<open>
  C8. A creation event whose destination, in lower case, does not start with the Base
  prefix \<open>0x62617374\<close> adds no order key to the pending set and posts no relay call.
\<close>

theorem destination_filter_drops:
  assumes "parseLog log = Parsed a"
    and "\<not> startsWith (toLowerCase (arg1_destination a)) ''0x62617374''"
  shows "pendingOrderIdsFromUnichain (processOrderCreatedEvent parseLog api log st) =
           pendingOrderIdsFromUnichain st
       \<and> relayed (processOrderCreatedEvent parseLog api log st) = relayed st"
  using assms by (simp add: processOrderCreatedEvent_def Let_def)

theorem destination_filter_drops_witness:
  "\<not> startsWith (toLowerCase ''0x6F707469'') ''0x62617374''
   \<and> pendingOrderIdsFromUnichain (processOrderCreatedEvent (demo_parseCreated ''0x6F707469'')
        (api_always Executed) demo_created_first executor_loaded) = {}
   \<and> relayed (processOrderCreatedEvent (demo_parseCreated ''0x6F707469'')
        (api_always Executed) demo_created_first executor_loaded) = []"
proof -
  have p: "demo_parseCreated ''0x6F707469'' demo_created_first =
     Parsed \<lparr>arg0_id = ''0xAA'', arg1_destination = ''0x6F707469'', arg2_asset = 7,
             arg3_targetAccount = ''0xBB'', arg4_amount = 100, arg5_rewardAsset = ''0xCC'',
             arg6_insurance = 3, arg7_maxReward = 4, arg8_nonce = 5,
             arg9_sourceAccount = ''0xDD'', arg10_orderTimestamp = 60\<rparr>"
    by (simp add: demo_parseCreated_def demo_created_first_def)
  have n: "\<not> startsWith (toLowerCase ''0x6F707469'') ''0x62617374''"
    by (simp add: toLowerCase_def startsWith_def)
  from destination_filter_drops [of "demo_parseCreated ''0x6F707469''" demo_created_first _
      "api_always Executed" executor_loaded, OF p] n
  show ?thesis by (simp add: executor_loaded_def)
qed

subsection \<open>The watermark of a poller\<close>

text \<open>
  C4, as stated, fails. One creation event is fetched at height 5 from watermark 4 and
  the post to the Executor API for it ends in an axios error: the tick returns the new
  watermark 5.
\<close>

theorem watermark_advances_past_failed_delivery:
  "pollForEvents (demo_provider 5 [demo_created_first]) SPOKE_CONTRACT_ABI ''OrderCreated''
     (processOrderCreatedEvent (demo_parseCreated ''0x62617374'') (api_always AxiosError))
     4 executor_loaded
   = (5, \<lparr>processedTxs = {''0x01''}, pendingOrderIdsFromUnichain = {''0xAA''},
          relayed = [(\<lparr>srcChainId = 1301, srcBlockNumber = 5, globalLogIndex = 0,
                       relayMethod = ''openOrder''\<rparr>, AxiosError)]\<rparr>)"
  by (simp add: pollForEvents_def demo_provider_def SPOKE_CONTRACT_ABI_def exec_simps)

text \<open>
  C4, amended. In a tick where the height is read and is above the watermark, the event is
  in the ABI and the logs are fetched, the poller hands every log of the batch to the
  processor, in the order fetched, and returns the height as the new watermark, whatever
  the processor did with each log. In a tick where reading the height fails, or the height
  is not above the watermark, or the event is not in the ABI, or fetching the logs fails,
  the poller returns the old watermark and delivers nothing. Whenever a tick returns the
  old watermark, it has delivered nothing.
\<close>

theorem watermark_advances_with_batch:
  "(getBlockNumber rpc = Some currentBlock \<and> lastProcessedBlock < currentBlock \<and>
    name \<in> set abiEvents \<and>
    getLogs rpc (lastProcessedBlock + 1) currentBlock = Some logs
    \<longrightarrow> pollForEvents rpc abiEvents name processor lastProcessedBlock st
          = (currentBlock, foldl (\<lambda>acc log. processor log acc) st logs))
   \<and> (fst (pollForEvents rpc abiEvents name processor lastProcessedBlock st)
        = lastProcessedBlock
      \<longrightarrow> pollForEvents rpc abiEvents name processor lastProcessedBlock st
            = (lastProcessedBlock, st))
   \<and> (getBlockNumber rpc = None
      \<longrightarrow> pollForEvents rpc abiEvents name processor lastProcessedBlock st
            = (lastProcessedBlock, st))
   \<and> (getBlockNumber rpc = Some currentBlock \<and> currentBlock \<le> lastProcessedBlock
      \<longrightarrow> pollForEvents rpc abiEvents name processor lastProcessedBlock st
            = (lastProcessedBlock, st))
   \<and> (getBlockNumber rpc = Some currentBlock \<and> name \<notin> set abiEvents
      \<longrightarrow> pollForEvents rpc abiEvents name processor lastProcessedBlock st
            = (lastProcessedBlock, st))
   \<and> (getBlockNumber rpc = Some currentBlock
       \<and> getLogs rpc (lastProcessedBlock + 1) currentBlock = None
      \<longrightarrow> pollForEvents rpc abiEvents name processor lastProcessedBlock st
            = (lastProcessedBlock, st))"
proof (intro conjI impI)
  assume "getBlockNumber rpc = Some currentBlock \<and> lastProcessedBlock < currentBlock \<and>
    name \<in> set abiEvents \<and>
    getLogs rpc (lastProcessedBlock + 1) currentBlock = Some logs"
  then show "pollForEvents rpc abiEvents name processor lastProcessedBlock st
          = (currentBlock, foldl (\<lambda>acc log. processor log acc) st logs)"
    by (simp add: pollForEvents_def)
next
  assume "fst (pollForEvents rpc abiEvents name processor lastProcessedBlock st)
        = lastProcessedBlock"
  then show "pollForEvents rpc abiEvents name processor lastProcessedBlock st
            = (lastProcessedBlock, st)"
    by (auto simp: pollForEvents_def split: option.splits if_splits)
next
  assume "getBlockNumber rpc = None"
  then show "pollForEvents rpc abiEvents name processor lastProcessedBlock st
            = (lastProcessedBlock, st)"
    by (simp add: pollForEvents_def)
next
  assume "getBlockNumber rpc = Some currentBlock \<and> currentBlock \<le> lastProcessedBlock"
  then show "pollForEvents rpc abiEvents name processor lastProcessedBlock st
            = (lastProcessedBlock, st)"
    by (simp add: pollForEvents_def)
next
  assume "getBlockNumber rpc = Some currentBlock \<and> name \<notin> set abiEvents"
  then show "pollForEvents rpc abiEvents name processor lastProcessedBlock st
            = (lastProcessedBlock, st)"
    by (simp add: pollForEvents_def)
next
  assume "getBlockNumber rpc = Some currentBlock
       \<and> getLogs rpc (lastProcessedBlock + 1) currentBlock = None"
  then show "pollForEvents rpc abiEvents name processor lastProcessedBlock st
            = (lastProcessedBlock, st)"
    by (simp add: pollForEvents_def)
qed

theorem watermark_advances_with_batch_witness:
  "fst (pollForEvents (demo_provider 5 [demo_created_first]) SPOKE_CONTRACT_ABI
          ''OrderCreated''
          (processOrderCreatedEvent (demo_parseCreated ''0x62617374'') (api_always AxiosError))
          4 executor_loaded) = 5
   \<and> pollForEvents demo_provider_down SPOKE_CONTRACT_ABI ''OrderCreated''
          (processOrderCreatedEvent (demo_parseCreated ''0x62617374'') (api_always Executed))
          4 executor_loaded = (4, executor_loaded)
   \<and> pollForEvents (demo_provider 4 [demo_created_first]) SPOKE_CONTRACT_ABI ''OrderCreated''
          (processOrderCreatedEvent (demo_parseCreated ''0x62617374'') (api_always Executed))
          4 executor_loaded = (4, executor_loaded)
   \<and> pollForEvents (demo_provider 5 [demo_created_first]) SPOKE_CONTRACT_ABI ''OrderOpened''
          (processOrderCreatedEvent (demo_parseCreated ''0x62617374'') (api_always Executed))
          4 executor_loaded = (4, executor_loaded)
   \<and> pollForEvents (demo_provider_no_logs 5) SPOKE_CONTRACT_ABI ''OrderCreated''
          (processOrderCreatedEvent (demo_parseCreated ''0x62617374'') (api_always Executed))
          4 executor_loaded = (4, executor_loaded)"
proof -
  have a: "getBlockNumber (demo_provider 5 [demo_created_first]) = Some 5 \<and> (4 :: int) < 5
      \<and> ''OrderCreated'' \<in> set SPOKE_CONTRACT_ABI
      \<and> getLogs (demo_provider 5 [demo_created_first]) (4 + 1) 5 = Some [demo_created_first]"
    by (simp add: demo_provider_def SPOKE_CONTRACT_ABI_def demo_created_first_def)
  have b: "fst (pollForEvents demo_provider_down SPOKE_CONTRACT_ABI ''OrderCreated''
          (processOrderCreatedEvent (demo_parseCreated ''0x62617374'') (api_always Executed))
          4 executor_loaded) = 4"
    by (simp add: pollForEvents_def demo_provider_down_def)
  have n: "getBlockNumber demo_provider_down = None"
    by (simp add: demo_provider_down_def)
  have l: "getBlockNumber (demo_provider 4 [demo_created_first]) = Some 4 \<and> (4 :: int) \<le> 4"
    by (simp add: demo_provider_def)
  have m: "getBlockNumber (demo_provider 5 [demo_created_first]) = Some 5
      \<and> ''OrderOpened'' \<notin> set SPOKE_CONTRACT_ABI"
    by (simp add: demo_provider_def SPOKE_CONTRACT_ABI_def)
  have g: "getBlockNumber (demo_provider_no_logs 5) = Some 5
      \<and> getLogs (demo_provider_no_logs 5) (4 + 1) 5 = None"
    by (simp add: demo_provider_no_logs_def)
  from watermark_advances_with_batch [of "demo_provider 5 [demo_created_first]" 5 4
      "''OrderCreated''" SPOKE_CONTRACT_ABI "[demo_created_first]"
      "processOrderCreatedEvent (demo_parseCreated ''0x62617374'') (api_always AxiosError)"
      executor_loaded] a
  have c: "fst (pollForEvents (demo_provider 5 [demo_created_first]) SPOKE_CONTRACT_ABI
          ''OrderCreated''
          (processOrderCreatedEvent (demo_parseCreated ''0x62617374'') (api_always AxiosError))
          4 executor_loaded) = 5"
    by simp
  from watermark_advances_with_batch [of demo_provider_down _ 4
      "''OrderCreated''" SPOKE_CONTRACT_ABI _
      "processOrderCreatedEvent (demo_parseCreated ''0x62617374'') (api_always Executed)"
      executor_loaded] b n
  have d: "pollForEvents demo_provider_down SPOKE_CONTRACT_ABI ''OrderCreated''
          (processOrderCreatedEvent (demo_parseCreated ''0x62617374'') (api_always Executed))
          4 executor_loaded = (4, executor_loaded)"
    by blast
  from watermark_advances_with_batch [of "demo_provider 4 [demo_created_first]" 4 4
      "''OrderCreated''" SPOKE_CONTRACT_ABI _
      "processOrderCreatedEvent (demo_parseCreated ''0x62617374'') (api_always Executed)"
      executor_loaded] l
  have e: "pollForEvents (demo_provider 4 [demo_created_first]) SPOKE_CONTRACT_ABI
          ''OrderCreated''
          (processOrderCreatedEvent (demo_parseCreated ''0x62617374'') (api_always Executed))
          4 executor_loaded = (4, executor_loaded)"
    by blast
  from watermark_advances_with_batch [of "demo_provider 5 [demo_created_first]" 5 4
      "''OrderOpened''" SPOKE_CONTRACT_ABI _
      "processOrderCreatedEvent (demo_parseCreated ''0x62617374'') (api_always Executed)"
      executor_loaded] m
  have f: "pollForEvents (demo_provider 5 [demo_created_first]) SPOKE_CONTRACT_ABI
          ''OrderOpened''
          (processOrderCreatedEvent (demo_parseCreated ''0x62617374'') (api_always Executed))
          4 executor_loaded = (4, executor_loaded)"
    by blast
  from watermark_advances_with_batch [of "demo_provider_no_logs 5" 5 4
      "''OrderCreated''" SPOKE_CONTRACT_ABI _
      "processOrderCreatedEvent (demo_parseCreated ''0x62617374'') (api_always Executed)"
      executor_loaded] g
  have h: "pollForEvents (demo_provider_no_logs 5) SPOKE_CONTRACT_ABI ''OrderCreated''
          (processOrderCreatedEvent (demo_parseCreated ''0x62617374'') (api_always Executed))
          4 executor_loaded = (4, executor_loaded)"
    by blast
  from c d e f h show ?thesis by blast
qed

subsection \<open>Redelivery\<close>

lemma deliver_processed:
  "transactionHash (deliveredLog d) \<in> processedTxs st \<Longrightarrow> deliver st d = st"
  by (cases d) (simp_all add: processOrderCreatedEvent_def processConfirmationEvent_def)

lemma callExecutorAPI_processedTxs:
  "processedTxs (callExecutorAPI api c b l m st) = processedTxs st"
  by (simp add: callExecutorAPI_def Let_def split: api_result.splits)

lemma callExecutorAPI_relayed:
  "length (relayed (callExecutorAPI api c b l m st)) = length (relayed st) + 1"
  by (simp add: callExecutorAPI_def Let_def split: api_result.splits)

lemma deliver_marks: "transactionHash (deliveredLog d) \<in> processedTxs (deliver st d)"
  by (cases d)
    (simp_all add: processOrderCreatedEvent_def processConfirmationEvent_def Let_def
      callExecutorAPI_processedTxs split: parsed.splits)

lemma deliver_keeps: "x \<in> processedTxs st \<Longrightarrow> x \<in> processedTxs (deliver st d)"
  by (cases d)
    (simp_all add: processOrderCreatedEvent_def processConfirmationEvent_def Let_def
      callExecutorAPI_processedTxs split: parsed.splits)

lemma deliveries_keep: "x \<in> processedTxs st \<Longrightarrow> x \<in> processedTxs (foldl deliver st ds)"
  by (induction ds arbitrary: st) (simp_all add: deliver_keeps)

lemma deliver_relays_once: "length (relayed (deliver st d)) \<le> length (relayed st) + 1"
  by (cases d)
    (simp_all add: processOrderCreatedEvent_def processConfirmationEvent_def Let_def
      callExecutorAPI_relayed split: parsed.splits)

lemma replay_idle: "foldl deliver (deliver st d) (replicate n d) = deliver st d"
  by (induction n) (simp_all add: deliver_processed deliver_marks)

text \<open>
  C7. A delivery posts at most one relay call. After a first delivery of an event, and
  after any further deliveries, a redelivery of the event (a delivery of a log with the
  same transaction hash and log index, to either processor) leaves the whole state of the
  executor as it is: it is skipped on the processed set and posts nothing. So delivering an
  event any number of times leaves the state of delivering it once.
\<close>

theorem redelivery_is_skipped:
  "length (relayed (deliver st d)) \<le> length (relayed st) + 1
   \<and> (transactionHash (deliveredLog d') = transactionHash (deliveredLog d)
        \<and> index (deliveredLog d') = index (deliveredLog d)
      \<longrightarrow> deliver (foldl deliver (deliver st d) ds) d' = foldl deliver (deliver st d) ds)
   \<and> foldl deliver st (replicate (Suc n) d) = deliver st d"
proof (intro conjI impI)
  show "length (relayed (deliver st d)) \<le> length (relayed st) + 1"
    by (rule deliver_relays_once)
next
  assume same: "transactionHash (deliveredLog d') = transactionHash (deliveredLog d)
        \<and> index (deliveredLog d') = index (deliveredLog d)"
  have "transactionHash (deliveredLog d) \<in> processedTxs (foldl deliver (deliver st d) ds)"
    by (rule deliveries_keep) (rule deliver_marks)
  with same show "deliver (foldl deliver (deliver st d) ds) d' = foldl deliver (deliver st d) ds"
    by (simp add: deliver_processed)
next
  show "foldl deliver st (replicate (Suc n) d) = deliver st d"
    using replay_idle [of st d n] by simp
qed

theorem redelivery_is_skipped_witness:
  "deliver (foldl deliver
       (deliver executor_loaded
          (Created (demo_parseCreated ''0x62617374'') (api_always AxiosError) demo_created_first))
       [Confirmed demo_parseConfirmation (api_always Executed) demo_confirmation])
     (Created (demo_parseCreated ''0x62617374'') (api_always Executed) demo_created_first)
   = foldl deliver
       (deliver executor_loaded
          (Created (demo_parseCreated ''0x62617374'') (api_always AxiosError) demo_created_first))
       [Confirmed demo_parseConfirmation (api_always Executed) demo_confirmation]"
  using redelivery_is_skipped [of executor_loaded
      "Created (demo_parseCreated ''0x62617374'') (api_always AxiosError) demo_created_first"
      "Created (demo_parseCreated ''0x62617374'') (api_always Executed) demo_created_first"
      "[Confirmed demo_parseConfirmation (api_always Executed) demo_confirmation]"]
  by simp

section \<open>Properties of the pollers\<close>

subsection \<open>The comparator sorts\<close>

lemma compareEvents_notAfter: "(compareEvents a b \<le> 0) = notAfter a b"
  by (auto simp: compareEvents_def notAfter_def)

lemma notAfter_total: "\<not> notAfter a b \<Longrightarrow> notAfter b a"
  by (auto simp: notAfter_def)

lemma notAfter_trans: "notAfter a b \<Longrightarrow> notAfter b c \<Longrightarrow> notAfter a c"
  by (auto simp: notAfter_def)

lemma mset_insertSorted: "mset (insertSorted cmp x ys) = add_mset x (mset ys)"
  by (induction ys) simp_all

lemma set_insertSorted: "set (insertSorted cmp x ys) = insert x (set ys)"
  by (induction ys) auto

lemma mset_arraySort: "mset (arraySort cmp xs) = mset xs"
  by (induction xs) (simp_all add: arraySort_def mset_insertSorted)

lemma sorted_insertSorted:
  "sorted_wrt notAfter ys \<Longrightarrow> sorted_wrt notAfter (insertSorted compareEvents x ys)"
proof (induction ys)
  case Nil
  show ?case by simp
next
  case (Cons y ys)
  show ?case
  proof (cases "compareEvents x y \<le> 0")
    case True
    then have xy: "notAfter x y" by (simp add: compareEvents_notAfter)
    have "\<forall>z\<in>set ys. notAfter x z"
      using Cons.prems xy by (auto intro: notAfter_trans)
    with True xy Cons.prems show ?thesis by simp
  next
    case False
    then have yx: "notAfter y x"
      by (simp add: compareEvents_notAfter notAfter_total)
    from Cons.prems have "sorted_wrt notAfter ys" by simp
    then have "sorted_wrt notAfter (insertSorted compareEvents x ys)" by (rule Cons.IH)
    with False yx Cons.prems show ?thesis by (simp add: set_insertSorted)
  qed
qed

lemma sorted_arraySort: "sorted_wrt notAfter (arraySort compareEvents xs)"
proof (induction xs)
  case Nil
  show ?case by (simp add: arraySort_def)
next
  case (Cons x xs)
  then show ?case using sorted_insertSorted [of "arraySort compareEvents xs" x]
    by (simp add: arraySort_def)
qed

subsection \<open>What a tick of the listener delivers\<close>

lemma processHubEvent_delivered: "delivered (processHubEvent e st) = delivered st @ [e]"
  by (simp add: processHubEvent_def Let_def split: option.splits)

lemma processHubEvent_queried: "queried (processHubEvent e st) = queried st"
  by (simp add: processHubEvent_def Let_def split: option.splits)

lemma deliverAll_delivered:
  "delivered (foldl (\<lambda>acc event. processHubEvent event acc) st xs) = delivered st @ xs"
  by (induction xs arbitrary: st) (simp_all add: processHubEvent_delivered)

lemma deliverAll_queried:
  "queried (foldl (\<lambda>acc event. processHubEvent event acc) st xs) = queried st"
  by (induction xs arbitrary: st) (simp_all add: processHubEvent_queried)

lemma hub_tick_delivered:
  assumes "connected st" and "hubBlockNumber rpc = Some cur"
    and "w = (if lastPolledBlock st = - 1 then max 0 (cur - CATCH_UP_BLOCK_COUNT)
              else lastPolledBlock st)"
    and "w < cur"
    and "queryFilter rpc ''OrderOpened'' (w + 1) cur = Some opened"
    and "queryFilter rpc ''OrderCompleted'' (w + 1) cur = Some completed"
    and "queryFilter rpc ''ReclaimReady'' (w + 1) cur = Some reclaim"
  shows "delivered (pollForHubEvents rpc st) =
           delivered st @ arraySort compareEvents (opened @ completed @ reclaim)"
  using assms
  by (auto simp: pollForHubEvents_def Let_def deliverAll_delivered arraySort_def)

text \<open>
  The listener on the three events of the concrete hub, returned as (7, 1), (7, 0), (4, 3):
  they are delivered as (4, 3), (7, 0), (7, 1).
\<close>

lemma hub_tick_example:
  "delivered (pollForHubEvents (demo_hub 9) (listener_loaded\<lparr>connected := True\<rparr>))
     = [demo_hub_event ''ReclaimReady'' ''0x0a'' 4 3,
        demo_hub_event ''OrderCompleted'' ''0x0c'' 7 0,
        demo_hub_event ''OrderOpened'' ''0x0b'' 7 1]"
  by (simp add: pollForHubEvents_def listener_loaded_def demo_hub_def CATCH_UP_BLOCK_COUNT_def
      Let_def processHubEvent_delivered arraySort_def compareEvents_def demo_hub_event_def)

text \<open>
  C5, as stated, fails on the poller of the executor. The log source returns the log of
  block 5 before the log of block 3, and the relay calls are posted in that order.
\<close>

theorem executor_delivers_in_source_order:
  "map (srcBlockNumber \<circ> fst) (relayed (snd
     (pollForEvents (demo_provider 6 [demo_created_first, demo_created_other])
        SPOKE_CONTRACT_ABI ''OrderCreated''
        (processOrderCreatedEvent (demo_parseCreated ''0x62617374'') (api_always Executed))
        2 executor_loaded)))
   = [5, 3]"
  by (simp add: pollForEvents_def demo_provider_def SPOKE_CONTRACT_ABI_def exec_simps)

text \<open>
  C5, amended. In a tick of the hub listener that fetches the logs of its three filters
  (\<open>w\<close> is the watermark the scan starts from), the events \<open>processHubEvent\<close> is called on
  during the tick are the fetched events, each as often as fetched, in non-decreasing
  (blockNumber, logIndex) order, whatever the order they were returned in. The poller of
  the executor hands the logs to its processor in the order the log source returned them.
\<close>

theorem hub_poller_delivers_sorted:
  "(connected st \<and> hubBlockNumber rpc = Some cur
    \<and> w = (if lastPolledBlock st = - 1 then max 0 (cur - CATCH_UP_BLOCK_COUNT)
           else lastPolledBlock st)
    \<and> w < cur
    \<and> queryFilter rpc ''OrderOpened'' (w + 1) cur = Some opened
    \<and> queryFilter rpc ''OrderCompleted'' (w + 1) cur = Some completed
    \<and> queryFilter rpc ''ReclaimReady'' (w + 1) cur = Some reclaim
    \<longrightarrow> (\<exists>batch. delivered (pollForHubEvents rpc st) = delivered st @ batch
           \<and> mset batch = mset (opened @ completed @ reclaim)
           \<and> sorted_wrt (\<lambda>a b. blockNumber a < blockNumber b
                 \<or> (blockNumber a = blockNumber b \<and> index a \<le> index b)) batch))
   \<and> (getBlockNumber rpc' = Some currentBlock \<and> lastProcessedBlock < currentBlock
    \<and> name \<in> set abiEvents
    \<and> getLogs rpc' (lastProcessedBlock + 1) currentBlock = Some logs
    \<longrightarrow> snd (pollForEvents rpc' abiEvents name processor lastProcessedBlock st')
          = foldl (\<lambda>acc log. processor log acc) st' logs)"
proof (intro conjI impI)
  assume h: "connected st \<and> hubBlockNumber rpc = Some cur
    \<and> w = (if lastPolledBlock st = - 1 then max 0 (cur - CATCH_UP_BLOCK_COUNT)
           else lastPolledBlock st)
    \<and> w < cur
    \<and> queryFilter rpc ''OrderOpened'' (w + 1) cur = Some opened
    \<and> queryFilter rpc ''OrderCompleted'' (w + 1) cur = Some completed
    \<and> queryFilter rpc ''ReclaimReady'' (w + 1) cur = Some reclaim"
  let ?batch = "arraySort compareEvents (opened @ completed @ reclaim)"
  from h hub_tick_delivered [of st rpc cur w opened completed reclaim]
  have d: "delivered (pollForHubEvents rpc st) = delivered st @ ?batch"
    by blast
  have m: "mset ?batch = mset (opened @ completed @ reclaim)"
    by (rule mset_arraySort)
  have "sorted_wrt notAfter ?batch" by (rule sorted_arraySort)
  then have s: "sorted_wrt (\<lambda>a b. blockNumber a < blockNumber b
                 \<or> (blockNumber a = blockNumber b \<and> index a \<le> index b)) ?batch"
    by (simp add: notAfter_def [abs_def])
  from d m s show "\<exists>batch. delivered (pollForHubEvents rpc st) = delivered st @ batch
           \<and> mset batch = mset (opened @ completed @ reclaim)
           \<and> sorted_wrt (\<lambda>a b. blockNumber a < blockNumber b
                 \<or> (blockNumber a = blockNumber b \<and> index a \<le> index b)) batch"
    by blast
next
  assume "getBlockNumber rpc' = Some currentBlock \<and> lastProcessedBlock < currentBlock
    \<and> name \<in> set abiEvents
    \<and> getLogs rpc' (lastProcessedBlock + 1) currentBlock = Some logs"
  then show "snd (pollForEvents rpc' abiEvents name processor lastProcessedBlock st')
          = foldl (\<lambda>acc log. processor log acc) st' logs"
    by (simp add: pollForEvents_def)
qed

theorem hub_poller_delivers_sorted_witness:
  "(\<exists>batch. delivered (pollForHubEvents (demo_hub 9) (listener_loaded\<lparr>connected := True\<rparr>))
        = batch
     \<and> mset batch = mset [demo_hub_event ''OrderOpened'' ''0x0b'' 7 1,
                           demo_hub_event ''OrderCompleted'' ''0x0c'' 7 0,
                           demo_hub_event ''ReclaimReady'' ''0x0a'' 4 3]
     \<and> sorted_wrt (\<lambda>a b. blockNumber a < blockNumber b
                 \<or> (blockNumber a = blockNumber b \<and> index a \<le> index b)) batch)
   \<and> snd (pollForEvents (demo_provider 6 [demo_created_first, demo_created_other])
        SPOKE_CONTRACT_ABI ''OrderCreated''
        (processOrderCreatedEvent (demo_parseCreated ''0x62617374'') (api_always Executed))
        2 executor_loaded)
     = foldl (\<lambda>acc log. processOrderCreatedEvent (demo_parseCreated ''0x62617374'')
                (api_always Executed) log acc)
         executor_loaded [demo_created_first, demo_created_other]"
proof -
  have a: "getBlockNumber (demo_provider 6 [demo_created_first, demo_created_other]) = Some 6
      \<and> (2 :: int) < 6 \<and> ''OrderCreated'' \<in> set SPOKE_CONTRACT_ABI
      \<and> getLogs (demo_provider 6 [demo_created_first, demo_created_other]) (2 + 1) 6
          = Some [demo_created_first, demo_created_other]"
    by (simp add: demo_provider_def SPOKE_CONTRACT_ABI_def demo_created_first_def
        demo_created_other_def)
  have b: "connected (listener_loaded\<lparr>connected := True\<rparr>)
      \<and> hubBlockNumber (demo_hub 9) = Some 9
      \<and> (0 :: int) = (if lastPolledBlock (listener_loaded\<lparr>connected := True\<rparr>) = - 1
               then max 0 (9 - CATCH_UP_BLOCK_COUNT)
               else lastPolledBlock (listener_loaded\<lparr>connected := True\<rparr>))
      \<and> (0 :: int) < 9
      \<and> queryFilter (demo_hub 9) ''OrderOpened'' (0 + 1) 9
           = Some [demo_hub_event ''OrderOpened'' ''0x0b'' 7 1]
      \<and> queryFilter (demo_hub 9) ''OrderCompleted'' (0 + 1) 9
           = Some [demo_hub_event ''OrderCompleted'' ''0x0c'' 7 0]
      \<and> queryFilter (demo_hub 9) ''ReclaimReady'' (0 + 1) 9
           = Some [demo_hub_event ''ReclaimReady'' ''0x0a'' 4 3]"
    by (simp add: listener_loaded_def demo_hub_def CATCH_UP_BLOCK_COUNT_def)
  have c: "delivered (listener_loaded\<lparr>connected := True\<rparr>) = []"
    by (simp add: listener_loaded_def)
  from hub_poller_delivers_sorted [of "listener_loaded\<lparr>connected := True\<rparr>" "demo_hub 9" 9 0
      "[demo_hub_event ''OrderOpened'' ''0x0b'' 7 1]"
      "[demo_hub_event ''OrderCompleted'' ''0x0c'' 7 0]"
      "[demo_hub_event ''ReclaimReady'' ''0x0a'' 4 3]"
      "demo_provider 6 [demo_created_first, demo_created_other]" 6 2
      "''OrderCreated''" SPOKE_CONTRACT_ABI "[demo_created_first, demo_created_other]"
      "processOrderCreatedEvent (demo_parseCreated ''0x62617374'') (api_always Executed)"
      executor_loaded] a b c
  show ?thesis by simp
qed

subsection \<open>The first tick\<close>

lemma catch_up_below: "0 < cur \<Longrightarrow> \<not> cur \<le> max 0 (cur - CATCH_UP_BLOCK_COUNT)"
  by (simp add: CATCH_UP_BLOCK_COUNT_def)

lemma first_tick_queried:
  assumes "connected st" and "lastPolledBlock st = - 1" and "hubBlockNumber rpc = Some cur"
    and "0 < cur"
  shows "queried (pollForHubEvents rpc st) = queried st @
             [(''OrderOpened'', max 0 (cur - CATCH_UP_BLOCK_COUNT) + 1, cur),
              (''OrderCompleted'', max 0 (cur - CATCH_UP_BLOCK_COUNT) + 1, cur),
              (''ReclaimReady'', max 0 (cur - CATCH_UP_BLOCK_COUNT) + 1, cur)]"
  using assms catch_up_below [of cur]
  by (simp add: pollForHubEvents_def Let_def deliverAll_queried split: option.splits)

lemma first_tick_watermark:
  assumes "connected st" and "lastPolledBlock st = - 1" and "hubBlockNumber rpc = Some cur"
    and "0 < cur"
  shows "lastPolledBlock (pollForHubEvents rpc st) = max 0 (cur - CATCH_UP_BLOCK_COUNT)
       \<or> lastPolledBlock (pollForHubEvents rpc st) = cur"
  using assms catch_up_below [of cur]
  by (simp add: pollForHubEvents_def Let_def split: option.splits)

lemma start_queried:
  assumes "hubBlockNumber rpc = Some cur" and "0 < cur"
  shows "queried (startHubListener (Some cur) rpc st) = queried st @
             [(''OrderOpened'', max 0 (cur - CATCH_UP_BLOCK_COUNT) + 1, cur),
              (''OrderCompleted'', max 0 (cur - CATCH_UP_BLOCK_COUNT) + 1, cur),
              (''ReclaimReady'', max 0 (cur - CATCH_UP_BLOCK_COUNT) + 1, cur)]"
proof (cases "max 0 (cur - CATCH_UP_BLOCK_COUNT) = - 1")
  case True
  then show ?thesis by simp
next
  case False
  with assms catch_up_below [of cur] show ?thesis
    by (simp add: startHubListener_def pollForHubEvents_def Let_def deliverAll_queried
        split: option.splits)
qed

text \<open>
  C6, as stated, fails on the pollers of the executor. They start with the watermark at
  the height read at start, 1000, not at 900; at height 1000 their first tick fetches
  nothing, and an event of block 950 is not delivered.
\<close>

theorem executor_starts_at_current_height:
  "startPolling (Some 1000) (Some 1000) = Some (1000, 1000)
   \<and> (1000 :: int) \<noteq> max 0 (1000 - CATCH_UP_BLOCK_COUNT)
   \<and> pollForEvents (demo_provider 1000 [demo_created_first\<lparr>blockNumber := 950\<rparr>])
        SPOKE_CONTRACT_ABI ''OrderCreated''
        (processOrderCreatedEvent (demo_parseCreated ''0x62617374'') (api_always Executed))
        1000 executor_loaded
      = (1000, executor_loaded)"
  by (simp add: startPolling_def CATCH_UP_BLOCK_COUNT_def pollForEvents_def demo_provider_def)

lemma catch_up_set: "max 0 (cur - CATCH_UP_BLOCK_COUNT) \<noteq> - 1"
  by simp

lemma first_tick_as_tick:
  assumes "connected st" and "lastPolledBlock st = - 1" and "hubBlockNumber rpc = Some cur"
  shows "pollForHubEvents rpc st =
           pollForHubEvents rpc (st\<lparr>lastPolledBlock := max 0 (cur - CATCH_UP_BLOCK_COUNT)\<rparr>)"
  using assms catch_up_set [of cur]
  by (simp add: pollForHubEvents_def)

lemma first_tick_no_block:
  assumes "connected st" and "lastPolledBlock st = - 1" and "hubBlockNumber rpc = Some cur"
    and "cur \<le> 0"
  shows "pollForHubEvents rpc st = st\<lparr>lastPolledBlock := 0\<rparr>"
  using assms
  by (simp add: pollForHubEvents_def CATCH_UP_BLOCK_COUNT_def)

lemma startPolling_watermarks:
  "startPolling (Some u) (Some b) = Some (wu, wb) \<Longrightarrow> wu = u \<and> wb = b"
  by (simp add: startPolling_def)

lemma poll_idle:
  "getBlockNumber rpc = Some cur \<Longrightarrow> cur \<le> w \<Longrightarrow>
   pollForEvents rpc abiEvents name processor w st = (w, st)"
  by (simp add: pollForEvents_def)

lemma poll_scan:
  "getBlockNumber rpc = Some cur \<Longrightarrow> w < cur \<Longrightarrow> name \<in> set abiEvents \<Longrightarrow>
   getLogs rpc (w + 1) cur = Some logs \<Longrightarrow>
   pollForEvents rpc abiEvents name processor w st
     = (cur, foldl (\<lambda>acc log. processor log acc) st logs)"
  by (simp add: pollForEvents_def)

lemma poll_range_only:
  "getBlockNumber rpc = Some cur \<Longrightarrow> getBlockNumber rpc' = Some cur \<Longrightarrow>
   getLogs rpc (w + 1) cur = getLogs rpc' (w + 1) cur \<Longrightarrow>
   pollForEvents rpc abiEvents name processor w st
     = pollForEvents rpc' abiEvents name processor w st"
  by (simp add: pollForEvents_def)

text \<open>
  C6, amended. The poller of the hub listener, on a tick with the watermark unset (- 1),
  sets the watermark to max(0, height - CATCH_UP_BLOCK_COUNT), the count being 100, and
  goes on as a tick from that watermark. At a height above 0 it queries its three filters
  from the block after that watermark up to the height, and the tick ends with the
  watermark there or at the height; at a height not above 0 it queries nothing and ends
  with the watermark 0. A start of the listener at a height above 0 makes the same
  queries. So at height 1000 the first tick scans blocks 901 to 1000. The pollers of the
  executor start with the watermark at the height of their chain read at start, with no
  lookback: a tick of such a poller at a height not above that watermark fetches and
  delivers nothing; at a height above it, the tick fetches the logs from the block after
  the watermark up to the height and delivers them, and it depends on nothing else the log
  source holds.
\<close>

theorem first_tick_lookback:
  "(connected st \<and> lastPolledBlock st = - 1 \<and> hubBlockNumber rpc = Some cur \<and> 0 < cur
      \<longrightarrow> queried (pollForHubEvents rpc st) = queried st @
             [(''OrderOpened'', max 0 (cur - CATCH_UP_BLOCK_COUNT) + 1, cur),
              (''OrderCompleted'', max 0 (cur - CATCH_UP_BLOCK_COUNT) + 1, cur),
              (''ReclaimReady'', max 0 (cur - CATCH_UP_BLOCK_COUNT) + 1, cur)]
          \<and> (lastPolledBlock (pollForHubEvents rpc st) = max 0 (cur - CATCH_UP_BLOCK_COUNT)
             \<or> lastPolledBlock (pollForHubEvents rpc st) = cur))
   \<and> (hubBlockNumber rpc = Some cur \<and> 0 < cur
      \<longrightarrow> queried (startHubListener (Some cur) rpc st) = queried st @
             [(''OrderOpened'', max 0 (cur - CATCH_UP_BLOCK_COUNT) + 1, cur),
              (''OrderCompleted'', max 0 (cur - CATCH_UP_BLOCK_COUNT) + 1, cur),
              (''ReclaimReady'', max 0 (cur - CATCH_UP_BLOCK_COUNT) + 1, cur)])
   \<and> CATCH_UP_BLOCK_COUNT = 100
   \<and> startPolling (Some unichainHeight) (Some baseHeight) = Some (unichainHeight, baseHeight)
   \<and> (connected st \<and> lastPolledBlock st = - 1 \<and> hubBlockNumber rpc = Some cur
      \<longrightarrow> pollForHubEvents rpc st =
            pollForHubEvents rpc
              (st\<lparr>lastPolledBlock := max 0 (cur - CATCH_UP_BLOCK_COUNT)\<rparr>))
   \<and> (connected st \<and> lastPolledBlock st = - 1 \<and> hubBlockNumber rpc = Some cur \<and> cur \<le> 0
      \<longrightarrow> pollForHubEvents rpc st = st\<lparr>lastPolledBlock := 0\<rparr>)
   \<and> (startPolling (Some unichainHeight) (Some baseHeight) = Some (wu, wb)
       \<and> (w = wu \<or> w = wb)
       \<and> getBlockNumber erpc = Some ecur \<and> ecur \<le> w
      \<longrightarrow> (w = unichainHeight \<or> w = baseHeight)
          \<and> pollForEvents erpc abiEvents name processor w est = (w, est))
   \<and> (startPolling (Some unichainHeight) (Some baseHeight) = Some (wu, wb)
       \<and> (w = wu \<or> w = wb)
       \<and> getBlockNumber erpc = Some ecur \<and> w < ecur \<and> name \<in> set abiEvents
       \<and> getLogs erpc (w + 1) ecur = Some logs
      \<longrightarrow> (w = unichainHeight \<or> w = baseHeight)
          \<and> pollForEvents erpc abiEvents name processor w est
              = (ecur, foldl (\<lambda>acc log. processor log acc) est logs))
   \<and> (startPolling (Some unichainHeight) (Some baseHeight) = Some (wu, wb)
       \<and> (w = wu \<or> w = wb)
       \<and> getBlockNumber erpc = Some ecur \<and> getBlockNumber erpc' = Some ecur
       \<and> getLogs erpc (w + 1) ecur = getLogs erpc' (w + 1) ecur
      \<longrightarrow> (w = unichainHeight \<or> w = baseHeight)
          \<and> pollForEvents erpc abiEvents name processor w est
              = pollForEvents erpc' abiEvents name processor w est)"
proof (intro conjI impI)
  assume h: "connected st \<and> lastPolledBlock st = - 1 \<and> hubBlockNumber rpc = Some cur \<and> 0 < cur"
  then show "queried (pollForHubEvents rpc st) = queried st @
             [(''OrderOpened'', max 0 (cur - CATCH_UP_BLOCK_COUNT) + 1, cur),
              (''OrderCompleted'', max 0 (cur - CATCH_UP_BLOCK_COUNT) + 1, cur),
              (''ReclaimReady'', max 0 (cur - CATCH_UP_BLOCK_COUNT) + 1, cur)]"
    using first_tick_queried [of st rpc cur] by blast
  from h show "lastPolledBlock (pollForHubEvents rpc st) = max 0 (cur - CATCH_UP_BLOCK_COUNT)
             \<or> lastPolledBlock (pollForHubEvents rpc st) = cur"
    using first_tick_watermark [of st rpc cur] by blast
next
  assume "hubBlockNumber rpc = Some cur \<and> 0 < cur"
  then show "queried (startHubListener (Some cur) rpc st) = queried st @
             [(''OrderOpened'', max 0 (cur - CATCH_UP_BLOCK_COUNT) + 1, cur),
              (''OrderCompleted'', max 0 (cur - CATCH_UP_BLOCK_COUNT) + 1, cur),
              (''ReclaimReady'', max 0 (cur - CATCH_UP_BLOCK_COUNT) + 1, cur)]"
    using start_queried [of rpc cur st] by blast
next
  show "CATCH_UP_BLOCK_COUNT = 100" by (simp add: CATCH_UP_BLOCK_COUNT_def)
next
  show "startPolling (Some unichainHeight) (Some baseHeight) = Some (unichainHeight, baseHeight)"
    by (simp add: startPolling_def)
next
  assume "connected st \<and> lastPolledBlock st = - 1 \<and> hubBlockNumber rpc = Some cur"
  then show "pollForHubEvents rpc st =
            pollForHubEvents rpc (st\<lparr>lastPolledBlock := max 0 (cur - CATCH_UP_BLOCK_COUNT)\<rparr>)"
    using first_tick_as_tick [of st rpc cur] by blast
next
  assume "connected st \<and> lastPolledBlock st = - 1 \<and> hubBlockNumber rpc = Some cur \<and> cur \<le> 0"
  then show "pollForHubEvents rpc st = st\<lparr>lastPolledBlock := 0\<rparr>"
    using first_tick_no_block [of st rpc cur] by blast
next
  assume h: "startPolling (Some unichainHeight) (Some baseHeight) = Some (wu, wb)
       \<and> (w = wu \<or> w = wb)
       \<and> getBlockNumber erpc = Some ecur \<and> ecur \<le> w"
  then show "w = unichainHeight \<or> w = baseHeight"
    using startPolling_watermarks [of unichainHeight baseHeight wu wb] by blast
  from h show "pollForEvents erpc abiEvents name processor w est = (w, est)"
    using poll_idle [of erpc ecur w abiEvents name processor est] by blast
next
  assume h: "startPolling (Some unichainHeight) (Some baseHeight) = Some (wu, wb)
       \<and> (w = wu \<or> w = wb)
       \<and> getBlockNumber erpc = Some ecur \<and> w < ecur \<and> name \<in> set abiEvents
       \<and> getLogs erpc (w + 1) ecur = Some logs"
  then show "w = unichainHeight \<or> w = baseHeight"
    using startPolling_watermarks [of unichainHeight baseHeight wu wb] by blast
  from h show "pollForEvents erpc abiEvents name processor w est
              = (ecur, foldl (\<lambda>acc log. processor log acc) est logs)"
    using poll_scan [of erpc ecur w name abiEvents logs processor est] by blast
next
  assume h: "startPolling (Some unichainHeight) (Some baseHeight) = Some (wu, wb)
       \<and> (w = wu \<or> w = wb)
       \<and> getBlockNumber erpc = Some ecur \<and> getBlockNumber erpc' = Some ecur
       \<and> getLogs erpc (w + 1) ecur = getLogs erpc' (w + 1) ecur"
  then show "w = unichainHeight \<or> w = baseHeight"
    using startPolling_watermarks [of unichainHeight baseHeight wu wb] by blast
  from h show "pollForEvents erpc abiEvents name processor w est
              = pollForEvents erpc' abiEvents name processor w est"
    using poll_range_only [of erpc ecur erpc' w abiEvents name processor est] by blast
qed

theorem first_tick_lookback_witness:
  "queried (pollForHubEvents (demo_hub 1000) (listener_loaded\<lparr>connected := True\<rparr>)) =
     [(''OrderOpened'', 901, 1000), (''OrderCompleted'', 901, 1000),
      (''ReclaimReady'', 901, 1000)]
   \<and> queried (startHubListener (Some 1000) (demo_hub 1000) listener_loaded) =
     [(''OrderOpened'', 901, 1000), (''OrderCompleted'', 901, 1000),
      (''ReclaimReady'', 901, 1000)]
   \<and> pollForHubEvents (demo_hub 1000) (listener_loaded\<lparr>connected := True\<rparr>) =
       pollForHubEvents (demo_hub 1000)
         (listener_loaded\<lparr>connected := True, lastPolledBlock := 900\<rparr>)
   \<and> pollForHubEvents (demo_hub 0) (listener_loaded\<lparr>connected := True\<rparr>) =
       listener_loaded\<lparr>connected := True, lastPolledBlock := 0\<rparr>
   \<and> pollForEvents (demo_provider 1000 [demo_created_first\<lparr>blockNumber := 950\<rparr>])
        SPOKE_CONTRACT_ABI ''OrderCreated''
        (processOrderCreatedEvent (demo_parseCreated ''0x62617374'') (api_always Executed))
        1000 executor_loaded
       = (1000, executor_loaded)
   \<and> pollForEvents
        (demo_provider 1001
           [demo_created_first\<lparr>blockNumber := 950\<rparr>, demo_created_other\<lparr>blockNumber := 1001\<rparr>])
        SPOKE_CONTRACT_ABI ''OrderCreated''
        (processOrderCreatedEvent (demo_parseCreated ''0x62617374'') (api_always Executed))
        1000 executor_loaded
       = (1001, processOrderCreatedEvent (demo_parseCreated ''0x62617374'') (api_always Executed)
                  (demo_created_other\<lparr>blockNumber := 1001\<rparr>) executor_loaded)
   \<and> pollForEvents (demo_provider 1001 [demo_created_first\<lparr>blockNumber := 950\<rparr>])
        SPOKE_CONTRACT_ABI ''OrderCreated''
        (processOrderCreatedEvent (demo_parseCreated ''0x62617374'') (api_always Executed))
        1000 executor_loaded
       = pollForEvents (demo_provider 1001 [])
        SPOKE_CONTRACT_ABI ''OrderCreated''
        (processOrderCreatedEvent (demo_parseCreated ''0x62617374'') (api_always Executed))
        1000 executor_loaded"
proof -
  let ?L = "listener_loaded\<lparr>connected := True\<rparr>"
  let ?P = "processOrderCreatedEvent (demo_parseCreated ''0x62617374'') (api_always Executed)"
  let ?old = "demo_created_first\<lparr>blockNumber := 950\<rparr>"
  let ?new = "demo_created_other\<lparr>blockNumber := 1001\<rparr>"
  have a: "connected ?L \<and> lastPolledBlock ?L = - 1
      \<and> hubBlockNumber (demo_hub 1000) = Some 1000 \<and> (0 :: int) < 1000"
    by (simp add: listener_loaded_def demo_hub_def)
  have a0: "connected ?L \<and> lastPolledBlock ?L = - 1
      \<and> hubBlockNumber (demo_hub 0) = Some 0 \<and> (0 :: int) \<le> 0"
    by (simp add: listener_loaded_def demo_hub_def)
  have q: "queried ?L = []" "queried listener_loaded = []"
    by (simp_all add: listener_loaded_def)
  have c: "max 0 (1000 - CATCH_UP_BLOCK_COUNT) + 1 = 901"
    by (simp add: CATCH_UP_BLOCK_COUNT_def)
  have c': "max 0 (1000 - CATCH_UP_BLOCK_COUNT) = 900"
    by (simp add: CATCH_UP_BLOCK_COUNT_def)
  have sp: "startPolling (Some 1000) (Some 1000) = Some (1000, 1000)"
    by (simp add: startPolling_def)
  have e2: "getBlockNumber (demo_provider 1000 [?old]) = Some 1000 \<and> (1000 :: int) \<le> 1000"
    by (simp add: demo_provider_def)
  have e3: "getBlockNumber (demo_provider 1001 [?old, ?new]) = Some 1001
      \<and> (1000 :: int) < 1001 \<and> ''OrderCreated'' \<in> set SPOKE_CONTRACT_ABI
      \<and> getLogs (demo_provider 1001 [?old, ?new]) (1000 + 1) 1001 = Some [?new]"
    by (simp add: demo_provider_def SPOKE_CONTRACT_ABI_def)
  have e4: "getBlockNumber (demo_provider 1001 [?old]) = Some 1001
      \<and> getBlockNumber (demo_provider 1001 []) = Some 1001
      \<and> getLogs (demo_provider 1001 [?old]) (1000 + 1) 1001
          = getLogs (demo_provider 1001 []) (1000 + 1) 1001"
    by (simp add: demo_provider_def)
  from first_tick_lookback [where st = ?L and rpc = "demo_hub 1000" and cur = 1000] a
  have p: "queried (pollForHubEvents (demo_hub 1000) ?L) =
      queried ?L @
        [(''OrderOpened'', max 0 (1000 - CATCH_UP_BLOCK_COUNT) + 1, 1000),
         (''OrderCompleted'', max 0 (1000 - CATCH_UP_BLOCK_COUNT) + 1, 1000),
         (''ReclaimReady'', max 0 (1000 - CATCH_UP_BLOCK_COUNT) + 1, 1000)]"
    by blast
  from first_tick_lookback [where st = listener_loaded and rpc = "demo_hub 1000"
      and cur = 1000] a
  have s: "queried (startHubListener (Some 1000) (demo_hub 1000) listener_loaded) =
      queried listener_loaded @
        [(''OrderOpened'', max 0 (1000 - CATCH_UP_BLOCK_COUNT) + 1, 1000),
         (''OrderCompleted'', max 0 (1000 - CATCH_UP_BLOCK_COUNT) + 1, 1000),
         (''ReclaimReady'', max 0 (1000 - CATCH_UP_BLOCK_COUNT) + 1, 1000)]"
    by blast
  from first_tick_lookback [where st = ?L and rpc = "demo_hub 1000" and cur = 1000] a
  have t: "pollForHubEvents (demo_hub 1000) ?L =
      pollForHubEvents (demo_hub 1000)
        (?L\<lparr>lastPolledBlock := max 0 (1000 - CATCH_UP_BLOCK_COUNT)\<rparr>)"
    by blast
  from first_tick_lookback [where st = ?L and rpc = "demo_hub 0" and cur = 0] a0
  have z: "pollForHubEvents (demo_hub 0) ?L = ?L\<lparr>lastPolledBlock := 0\<rparr>"
    by blast
  from first_tick_lookback [where unichainHeight = 1000 and baseHeight = 1000
      and wu = 1000 and wb = 1000 and w = 1000
      and erpc = "demo_provider 1000 [?old]" and ecur = 1000
      and abiEvents = SPOKE_CONTRACT_ABI and name = "''OrderCreated''"
      and processor = ?P and est = executor_loaded] sp e2
  have i: "pollForEvents (demo_provider 1000 [?old]) SPOKE_CONTRACT_ABI ''OrderCreated'' ?P
      1000 executor_loaded = (1000, executor_loaded)"
    by blast
  from first_tick_lookback [where unichainHeight = 1000 and baseHeight = 1000
      and wu = 1000 and wb = 1000 and w = 1000
      and erpc = "demo_provider 1001 [?old, ?new]" and ecur = 1001
      and abiEvents = SPOKE_CONTRACT_ABI and name = "''OrderCreated''"
      and logs = "[?new]" and processor = ?P and est = executor_loaded] sp e3
  have j: "pollForEvents (demo_provider 1001 [?old, ?new]) SPOKE_CONTRACT_ABI
      ''OrderCreated'' ?P 1000 executor_loaded
      = (1001, foldl (\<lambda>acc log. ?P log acc) executor_loaded [?new])"
    by blast
  from first_tick_lookback [where unichainHeight = 1000 and baseHeight = 1000
      and wu = 1000 and wb = 1000 and w = 1000
      and erpc = "demo_provider 1001 [?old]" and erpc' = "demo_provider 1001 []"
      and ecur = 1001
      and abiEvents = SPOKE_CONTRACT_ABI and name = "''OrderCreated''"
      and processor = ?P and est = executor_loaded] sp e4
  have k: "pollForEvents (demo_provider 1001 [?old]) SPOKE_CONTRACT_ABI ''OrderCreated'' ?P
      1000 executor_loaded
      = pollForEvents (demo_provider 1001 []) SPOKE_CONTRACT_ABI ''OrderCreated'' ?P
      1000 executor_loaded"
    by blast
  from p have p': "queried (pollForHubEvents (demo_hub 1000) ?L) =
      [(''OrderOpened'', 901, 1000), (''OrderCompleted'', 901, 1000),
       (''ReclaimReady'', 901, 1000)]"
    unfolding q c by simp
  from s have s': "queried (startHubListener (Some 1000) (demo_hub 1000) listener_loaded) =
      [(''OrderOpened'', 901, 1000), (''OrderCompleted'', 901, 1000),
       (''ReclaimReady'', 901, 1000)]"
    unfolding q c by simp
  from t have t': "pollForHubEvents (demo_hub 1000) ?L =
      pollForHubEvents (demo_hub 1000) (listener_loaded\<lparr>connected := True, lastPolledBlock := 900\<rparr>)"
    unfolding c' by simp
  from z have z': "pollForHubEvents (demo_hub 0) ?L =
      listener_loaded\<lparr>connected := True, lastPolledBlock := 0\<rparr>"
    by simp
  from j have j': "pollForEvents (demo_provider 1001 [?old, ?new]) SPOKE_CONTRACT_ABI
      ''OrderCreated'' ?P 1000 executor_loaded = (1001, ?P ?new executor_loaded)"
    by simp
  from p' s' t' z' i j' k show ?thesis by blast
qed

end
